theory Spec2Isabelle
  imports Main "HOL-Library.Monad_Syntax" "HOL-Library.AList" "HOL-Library.Multiset"
begin

section \<open>Language-server protocol values\<close>

text \<open>
  The protocol library's \<^verbatim>\<open>Position.create\<close>, \<^verbatim>\<open>Range.create\<close> and
  \<^verbatim>\<open>LocationLink.create\<close> build plain objects from their arguments.
  \<^verbatim>\<open>LocationLink.create(targetUri, targetRange, targetSelectionRange, originSelectionRange?)\<close>
  stores its optional fourth argument as given, so a call with three arguments leaves
  \<^verbatim>\<open>originSelectionRange\<close> undefined. \<^verbatim>\<open>DefinitionLink\<close> is the protocol's alias of
  \<^verbatim>\<open>LocationLink\<close>. The field \<^verbatim>\<open>end\<close> of a range is written \<open>end'\<close>.
\<close>

type_synonym Resource = string

record Position =
  line :: nat
  character :: nat

record Range =
  start :: Position
  end' :: Position

record LocationLink =
  originSelectionRange :: "Range option"
  targetUri :: Resource
  targetRange :: Range
  targetSelectionRange :: Range

type_synonym DefinitionLink = LocationLink

definition Position_create :: "nat \<Rightarrow> nat \<Rightarrow> Position" where
  "Position_create l c = \<lparr>line = l, character = c\<rparr>"

definition Range_create :: "Position \<Rightarrow> Position \<Rightarrow> Range" where
  "Range_create s e = \<lparr>start = s, end' = e\<rparr>"

definition LocationLink_create ::
  "Resource \<Rightarrow> Range \<Rightarrow> Range \<Rightarrow> Range option \<Rightarrow> LocationLink" where
  "LocationLink_create uri tr tsr osr =
     \<lparr>originSelectionRange = osr, targetUri = uri, targetRange = tr,
      targetSelectionRange = tsr\<rparr>"

section \<open>The parser's statement tree\<close>

text \<open>
  The interfaces of the statement module, restricted to the fields that name a declared
  object. The extraction code reads every field through optional chaining
  (\<^verbatim>\<open>stmt?.stmt?.CreateStmt?.relation?.relname\<close>), so each field is modelled as
  optional, whether or not its interface marks it so: a field that is absent at run time
  reads as \<open>None\<close>.
\<close>

record CreateStmtRelation =
  schemaname :: "string option"
  relname :: "string option"

record CreateStmt =
  relation :: "CreateStmtRelation option"

record ViewStmtRelation =
  schemaname :: "string option"
  relname :: "string option"

record ViewStmt =
  view :: "ViewStmtRelation option"

record CompositeTypeStmtTypevar =
  schemaname :: "string option"
  relname :: "string option"

record CompositeTypeStmt =
  typevar :: "CompositeTypeStmtTypevar option"

record FuncNameString =
  str :: "string option"

record FuncName =
  String :: "FuncNameString option"

record CreateFunctionStmt =
  is_procedure :: "bool option"
  funcname :: "FuncName list option"

record CreateTrigStmtRelation =
  relname :: "string option"

record CreateTrigStmt =
  trigname :: "string option"
  relation :: "CreateTrigStmtRelation option"
  funcname :: "FuncName list option"

record IndexStmt =
  idxname :: "string option"

record StatementItem =
  CreateStmt :: "CreateStmt option"
  ViewStmt :: "ViewStmt option"
  CompositeTypeStmt :: "CompositeTypeStmt option"
  CreateFunctionStmt :: "CreateFunctionStmt option"
  CreateTrigStmt :: "CreateTrigStmt option"
  IndexStmt :: "IndexStmt option"

record Statement =
  stmt :: "StatementItem option"

section \<open>Extraction of declarations\<close>

text \<open>
  A \<^verbatim>\<open>Candidate\<close> pairs the declared name (the field \<^verbatim>\<open>definition\<close>, written
  \<open>definition'\<close> here) with the link to its declaration site.
\<close>

record Candidate =
  definition' :: string
  definitionLink :: DefinitionLink

text \<open>\<^verbatim>\<open>Range.create(Position.create(0, 0), Position.create(0, 0))\<close>, which every pass writes twice.\<close>

definition zeroRange :: Range where
  "zeroRange = Range_create (Position_create 0 0) (Position_create 0 0)"

text \<open>
  \<^verbatim>\<open>getCreateStmts\<close>: a statement contributes only when both the schema name and the
  relation name of its \<^verbatim>\<open>CreateStmt\<close> are defined.
\<close>

definition getCreateStmts :: "Statement list \<Rightarrow> Resource \<Rightarrow> Candidate list" where
  "getCreateStmts stmts resource = concat (map (\<lambda>stmt.
     let schemaname = Statement.stmt stmt \<bind> StatementItem.CreateStmt
                        \<bind> CreateStmt.relation \<bind> CreateStmtRelation.schemaname;
         relname = Statement.stmt stmt \<bind> StatementItem.CreateStmt
                        \<bind> CreateStmt.relation \<bind> CreateStmtRelation.relname
     in case (schemaname, relname) of
          (Some s, Some n) \<Rightarrow>
            [\<lparr>definition' = s @ ''.'' @ n,
              definitionLink = LocationLink_create resource zeroRange zeroRange None\<rparr>]
        | _ \<Rightarrow> []) stmts)"

text \<open>\<^verbatim>\<open>getCompositeTypeStmts\<close>: only the type's relation name is read.\<close>

definition getCompositeTypeStmts :: "Statement list \<Rightarrow> Resource \<Rightarrow> Candidate list" where
  "getCompositeTypeStmts stmts resource = concat (map (\<lambda>stmt.
     case Statement.stmt stmt \<bind> StatementItem.CompositeTypeStmt
            \<bind> CompositeTypeStmt.typevar \<bind> CompositeTypeStmtTypevar.relname of
       None \<Rightarrow> []
     | Some d \<Rightarrow>
         [\<lparr>definition' = d,
           definitionLink = LocationLink_create resource zeroRange zeroRange None\<rparr>]) stmts)"

text \<open>
  \<^verbatim>\<open>getCreateFunctionStmts\<close> (its \<^verbatim>\<open>space\<close> argument is never used and is left
  out): the inner \<^verbatim>\<open>flatMap\<close> runs over the components of the name list.
\<close>

definition getCreateFunctionStmts :: "Statement list \<Rightarrow> Resource \<Rightarrow> Candidate list" where
  "getCreateFunctionStmts stmts resource = concat (map (\<lambda>stmt.
     case Statement.stmt stmt \<bind> StatementItem.CreateFunctionStmt
            \<bind> CreateFunctionStmt.funcname of
       None \<Rightarrow> []
     | Some funcnames \<Rightarrow>
         if length funcnames = 0 then []
         else concat (map (\<lambda>funcname.
                case FuncName.String funcname \<bind> FuncNameString.str of
                  None \<Rightarrow> []
                | Some d \<Rightarrow>
                    [\<lparr>definition' = d,
                      definitionLink =
                        LocationLink_create resource zeroRange zeroRange None\<rparr>])
              funcnames)) stmts)"

text \<open>
  The list that \<^verbatim>\<open>updateFileDefinition\<close> builds and hands to the index
  (its local \<^verbatim>\<open>createStmts\<close>).
\<close>

definition createStmts :: "Statement list \<Rightarrow> Resource \<Rightarrow> Candidate list" where
  "createStmts stmts resource =
     getCreateStmts stmts resource @ getCompositeTypeStmts stmts resource
       @ getCreateFunctionStmts stmts resource"

section \<open>The definitions index\<close>

text \<open>
  Modelled from the spec: the class of \<^verbatim>\<open>space.definitionMap\<close> (its methods
  \<^verbatim>\<open>updateCandidates\<close> and \<^verbatim>\<open>getDefinitionLinks\<close>) is not among the sources.
  Following the spec's File Entry and Workspace Definitions Index, the index is the list of
  file entries in file-processing order; \<^verbatim>\<open>updateCandidates\<close> is the spec's
  \<^verbatim>\<open>replace\<close> (the file's previous list is discarded and the new one installed, a new
  file is appended), and the lookup returns the links of all stored declarations whose name
  equals the given form under exact string comparison, the empty list if there is none.
\<close>

type_synonym DefinitionMap = "(Resource \<times> Candidate list) list"

definition updateCandidates ::
  "DefinitionMap \<Rightarrow> Resource \<Rightarrow> Candidate list \<Rightarrow> DefinitionMap" where
  "updateCandidates dm resource candidates = AList.update resource candidates dm"

definition DefinitionMap_getDefinitionLinks ::
  "DefinitionMap \<Rightarrow> string \<Rightarrow> DefinitionLink list" where
  "DefinitionMap_getDefinitionLinks dm d =
     map definitionLink (filter (\<lambda>c. definition' c = d) (concat (map snd dm)))"

section \<open>Collaborators of the workspace module\<close>

text \<open>
  The file system, the external parser, glob expansion and the settings are parameters.
  Glob expansion and the two settings lookups are taken to return.
  \<^verbatim>\<open>readFileSync\<close> and \<^verbatim>\<open>parseQuery\<close> throw (the parser rejects its promise on a syntax
  error, which is why \<^verbatim>\<open>getStmtements\<close> wraps it), so they return a sum with the
  exception on the left. \<^verbatim>\<open>parseQuery\<close>'s value is read as \<^verbatim>\<open>query?.["stmts"]\<close>:
  both the query and its statement list may be undefined.

  \<^verbatim>\<open>readFileSync\<close> is synchronous; \<^verbatim>\<open>parseQuery\<close> returns a promise that the parser settles
  later, from outside the running code. A \<open>Task\<close> is an update whose file has been read and
  whose parse is in flight; \<open>awaited\<close> tells whether the \<^verbatim>\<open>Promise.all\<close> that the load is
  waiting on includes it. The code does not fix the order in which the promises in flight
  settle: \<open>settlesNext\<close> picks, among the tasks in flight, the position of the one that
  settles next.
\<close>

record Task =
  awaited :: bool
  taskResource :: Resource
  taskText :: string

datatype error = ReadError | ParseError | QueryError

record Query =
  stmts :: "Statement list option"

record LanguageServerSettings =
  definitionFiles :: "string list option"

record WorkspaceFolder =
  uri :: Resource

record env =
  readFileSync :: "string \<Rightarrow> error + string"
  parseQuery :: "string \<Rightarrow> error + Query option"
  glob :: "string \<Rightarrow> string list"
  getDocumentSettings :: "Resource \<Rightarrow> LanguageServerSettings"
  getWorkSpaceFolder :: "Resource \<Rightarrow> WorkspaceFolder option"
  settlesNext :: "Task list \<Rightarrow> nat"

text \<open>
  The text helpers \<^verbatim>\<open>getWordRangeAtPosition\<close> and \<^verbatim>\<open>document.getText\<close> are not among
  the sources either and are parameters over an arbitrary document type.
\<close>

record 'doc textHelpers =
  getWordRangeAtPosition :: "'doc \<Rightarrow> Position \<Rightarrow> Range option"
  getText :: "'doc \<Rightarrow> Range \<Rightarrow> string"

record 'doc Space =
  documents :: "Resource \<Rightarrow> 'doc option"
  definitionMap :: DefinitionMap

record TextDocumentIdentifier =
  uri :: Resource

record DefinitionParams =
  textDocument :: TextDocumentIdentifier
  position :: Position

section \<open>The workspace module\<close>

text \<open>\<^verbatim>\<open>resource.replace(/^file:\/\//, "")\<close>\<close>

definition stripFileScheme :: "Resource \<Rightarrow> string" where
  "stripFileScheme resource =
     (if take 7 resource = ''file://'' then drop 7 resource else resource)"

text \<open>
  \<^verbatim>\<open>updateFileDefinition\<close> returns nothing; its effect is the new state of the space.
  Neither the read nor the parse is guarded, so their exceptions leave the function
  (\<open>Inl\<close>). When the statement list is undefined it returns early without touching the
  index.
\<close>

definition updateFileDefinition ::
  "env \<Rightarrow> 'doc Space \<Rightarrow> Resource \<Rightarrow> error + 'doc Space" where
  "updateFileDefinition e space resource =
     (case readFileSync e (stripFileScheme resource) of
        Inl err \<Rightarrow> Inl err
      | Inr text \<Rightarrow>
          (case parseQuery e text of
             Inl err \<Rightarrow> Inl err
           | Inr query \<Rightarrow>
               (case query \<bind> stmts of
                  None \<Rightarrow> Inr space
                | Some ss \<Rightarrow>
                    Inr (space\<lparr>definitionMap :=
                           updateCandidates (definitionMap space) resource
                             (createStmts ss resource)\<rparr>))))"

text \<open>\<^verbatim>\<open>getStmtements\<close> of the statement module: the parser's exception becomes undefined.\<close>

definition getStmtements :: "env \<Rightarrow> string \<Rightarrow> Statement list option" where
  "getStmtements e query =
     (case parseQuery e query of
        Inl err \<Rightarrow> None
      | Inr q \<Rightarrow> q \<bind> stmts)"

text \<open>
  The part of \<^verbatim>\<open>updateFileDefinition\<close> that runs when the promise of \<^verbatim>\<open>parseQuery\<close> has
  settled: it has no further \<^verbatim>\<open>await\<close>, so it runs in one piece. The parser's answer
  depends on the text alone, so it is looked up when the task settles.
\<close>

definition resumeUpdate ::
  "env \<Rightarrow> 'doc Space \<Rightarrow> Resource \<Rightarrow> string \<Rightarrow> error + 'doc Space" where
  "resumeUpdate e space resource text =
     (case parseQuery e text of
        Inl err \<Rightarrow> Inl err
      | Inr query \<Rightarrow>
          (case query \<bind> stmts of
             None \<Rightarrow> Inr space
           | Some ss \<Rightarrow>
               Inr (space\<lparr>definitionMap :=
                      updateCandidates (definitionMap space) resource
                        (createStmts ss resource)\<rparr>)))"

text \<open>
  \<^verbatim>\<open>files.map(async (file) => ...)\<close> runs every callback up to its first \<^verbatim>\<open>await\<close>: each
  file is read at once, in list order. A file that cannot be read makes its promise
  rejected on the spot; for every other file a parse is started.
\<close>

definition readRejections :: "env \<Rightarrow> Resource list \<Rightarrow> error list" where
  "readRejections e resources = concat (map (\<lambda>resource.
     case readFileSync e (stripFileScheme resource) of
       Inl err \<Rightarrow> [err]
     | Inr text \<Rightarrow> []) resources)"

definition startedTasks :: "env \<Rightarrow> Resource list \<Rightarrow> Task list" where
  "startedTasks e resources = concat (map (\<lambda>resource.
     case readFileSync e (stripFileScheme resource) of
       Inl err \<Rightarrow> []
     | Inr text \<Rightarrow> [\<lparr>awaited = True, taskResource = resource, taskText = text\<rparr>]) resources)"

definition removeNth :: "nat \<Rightarrow> 'a list \<Rightarrow> 'a list" where
  "removeNth i xs = take i xs @ drop (Suc i) xs"

text \<open>
  \<^verbatim>\<open>await Promise.all(...)\<close> while no promise has rejected yet: the load sleeps until the
  promises it waits on are all fulfilled (the value \<open>None\<close>) or one of them rejects (the
  value \<open>Some err\<close>, with which \<^verbatim>\<open>Promise.all\<close> rejects at once). Meanwhile the tasks in
  flight settle one by one, those of an earlier pattern among them; a task that is not
  awaited and rejects has nobody to tell. The result holds the index at the moment the load
  wakes up and the tasks that are still in flight then.
\<close>

function awaitAll ::
  "env \<Rightarrow> 'doc Space \<Rightarrow> Task list \<Rightarrow> error option \<times> 'doc Space \<times> Task list" where
  "awaitAll e space inFlight =
     (if \<not> list_ex awaited inFlight then (None, space, inFlight)
      else
        let i = settlesNext e inFlight mod length inFlight;
            task = inFlight ! i;
            rest = removeNth i inFlight
        in case resumeUpdate e space (taskResource task) (taskText task) of
             Inl err \<Rightarrow>
               if awaited task then (Some err, space, rest) else awaitAll e space rest
           | Inr space' \<Rightarrow> awaitAll e space' rest)"
  by pat_completeness auto
termination
proof (relation "measure (\<lambda>(e, space, inFlight). length inFlight)")
  show "wf (measure (\<lambda>(e, space, inFlight). length inFlight))"
    by simp
next
  fix e :: env and space :: "'doc Space" and inFlight :: "Task list" and i task rest err
  assume "\<not> \<not> list_ex awaited inFlight"
    and "i = settlesNext e inFlight mod length inFlight"
    and "rest = removeNth i inFlight"
  then show "((e, space, rest), (e, space, inFlight))
      \<in> measure (\<lambda>(e, space, inFlight). length inFlight)"
    by (cases inFlight) (auto simp: removeNth_def)
next
  fix e :: env and space :: "'doc Space" and inFlight :: "Task list" and i task rest space'
  assume "\<not> \<not> list_ex awaited inFlight"
    and "i = settlesNext e inFlight mod length inFlight"
    and "rest = removeNth i inFlight"
  then show "((e, space', rest), (e, space, inFlight))
      \<in> measure (\<lambda>(e, space, inFlight). length inFlight)"
    by (cases inFlight) (auto simp: removeNth_def)
qed

text \<open>
  \<^verbatim>\<open>await Promise.all(files.map(...))\<close> for the files of one pattern, with the tasks that
  earlier patterns left in flight. A rejected read rejects \<^verbatim>\<open>Promise.all\<close> before any
  parse can settle: the parses of the readable files have been started and stay in flight.
\<close>

definition awaitUpdates ::
  "env \<Rightarrow> 'doc Space \<Rightarrow> Task list \<Rightarrow> Resource list
     \<Rightarrow> error option \<times> 'doc Space \<times> Task list" where
  "awaitUpdates e space inFlight resources =
     (case readRejections e resources of
        err # _ \<Rightarrow> (Some err, space, inFlight @ startedTasks e resources)
      | [] \<Rightarrow> awaitAll e space (inFlight @ startedTasks e resources))"

text \<open>
  The loop over \<^verbatim>\<open>settings.definitionFiles\<close>. The \<^verbatim>\<open>try\<close> block encloses the
  \<^verbatim>\<open>Promise.all\<close> of a pattern, not the update of a file: on a rejection the \<^verbatim>\<open>catch\<close>
  logs it and continues with the next pattern, and the tasks of the pattern that are
  still in flight are no longer awaited by anything.
\<close>

fun loadPatterns ::
  "env \<Rightarrow> Resource \<Rightarrow> 'doc Space \<Rightarrow> Task list \<Rightarrow> string list \<Rightarrow> 'doc Space \<times> Task list" where
  "loadPatterns e workspaceUri space inFlight [] = (space, inFlight)"
| "loadPatterns e workspaceUri space inFlight (filePattern # rest) =
     (let files = glob e filePattern in
      case awaitUpdates e space inFlight (map (\<lambda>file. workspaceUri @ ''/'' @ file) files) of
        (None, space', inFlight') \<Rightarrow>
          loadPatterns e workspaceUri space' (map (\<lambda>t. t\<lparr>awaited := False\<rparr>) inFlight') rest
      | (Some err, space', inFlight') \<Rightarrow>
          loadPatterns e workspaceUri space' (map (\<lambda>t. t\<lparr>awaited := False\<rparr>) inFlight') rest)"

text \<open>
  \<^verbatim>\<open>loadDefinitionInWorkspace\<close>, run until its promise resolves: the space at that moment
  and the tasks it leaves in flight.
\<close>

definition runLoadDefinitionInWorkspace ::
  "env \<Rightarrow> 'doc Space \<Rightarrow> Resource \<Rightarrow> 'doc Space \<times> Task list" where
  "runLoadDefinitionInWorkspace e space resource =
     (let settings = getDocumentSettings e resource in
      case getWorkSpaceFolder e resource of
        None \<Rightarrow> (space, [])
      | Some workspace \<Rightarrow>
          (case definitionFiles settings of
             None \<Rightarrow> (space, [])
           | Some patterns \<Rightarrow>
               loadPatterns e (WorkspaceFolder.uri workspace) space [] patterns))"

definition loadDefinitionInWorkspace :: "env \<Rightarrow> 'doc Space \<Rightarrow> Resource \<Rightarrow> 'doc Space" where
  "loadDefinitionInWorkspace e space resource =
     fst (runLoadDefinitionInWorkspace e space resource)"

definition tasksInFlight :: "env \<Rightarrow> 'doc Space \<Rightarrow> Resource \<Rightarrow> Task list" where
  "tasksInFlight e space resource = snd (runLoadDefinitionInWorkspace e space resource)"

text \<open>
  What the event loop still does once nothing waits for the tasks in flight: they settle
  one by one, and a rejection is dropped.
\<close>

function settleAll :: "env \<Rightarrow> 'doc Space \<Rightarrow> Task list \<Rightarrow> 'doc Space" where
  "settleAll e space inFlight =
     (if inFlight = [] then space
      else
        let i = settlesNext e inFlight mod length inFlight;
            task = inFlight ! i;
            rest = removeNth i inFlight
        in case resumeUpdate e space (taskResource task) (taskText task) of
             Inl err \<Rightarrow> settleAll e space rest
           | Inr space' \<Rightarrow> settleAll e space' rest)"
  by pat_completeness auto
termination
proof (relation "measure (\<lambda>(e, space, inFlight). length inFlight)")
  show "wf (measure (\<lambda>(e, space, inFlight). length inFlight))"
    by simp
next
  fix e :: env and space :: "'doc Space" and inFlight :: "Task list" and i task rest err
  assume "inFlight \<noteq> []"
    and "i = settlesNext e inFlight mod length inFlight"
    and "rest = removeNth i inFlight"
  then show "((e, space, rest), (e, space, inFlight))
      \<in> measure (\<lambda>(e, space, inFlight). length inFlight)"
    by (cases inFlight) (auto simp: removeNth_def)
next
  fix e :: env and space :: "'doc Space" and inFlight :: "Task list" and i task rest space'
  assume "inFlight \<noteq> []"
    and "i = settlesNext e inFlight mod length inFlight"
    and "rest = removeNth i inFlight"
  then show "((e, space', rest), (e, space, inFlight))
      \<in> measure (\<lambda>(e, space, inFlight). length inFlight)"
    by (cases inFlight) (auto simp: removeNth_def)
qed

declare awaitAll.simps [simp del] settleAll.simps [simp del]

text \<open>
  \<^verbatim>\<open>getDefinitionLinks\<close>: the word is looked up as the document has it. (The source makes
  the same lookup a second time for its log line; the lookup reads the index and changes
  nothing.)
\<close>

definition getDefinitionLinks ::
  "'doc textHelpers \<Rightarrow> 'doc Space \<Rightarrow> DefinitionParams \<Rightarrow> DefinitionLink list option" where
  "getDefinitionLinks h space params =
     (case documents space (TextDocumentIdentifier.uri (textDocument params)) of
        None \<Rightarrow> None
      | Some document \<Rightarrow>
          (case getWordRangeAtPosition h document (position params) of
             None \<Rightarrow> None
           | Some wordRange \<Rightarrow>
               Some (DefinitionMap_getDefinitionLinks (definitionMap space)
                       (getText h document wordRange))))"

section \<open>The close handler\<close>

text \<open>
  The handlers object holds the settings manager, the definitions manager and the
  connection as separate objects. Of the connection only the diagnostics it has been asked
  to send are kept. \<^verbatim>\<open>SettingsManager.delete\<close> is not among the sources and is a
  parameter acting on the settings manager alone.
\<close>

typedecl Diagnostic

record PublishDiagnosticsParams =
  uri :: Resource
  diagnostics :: "Diagnostic list"

record ('sm, 'dm) Handlers =
  settingsManager :: 'sm
  definitionsManager :: 'dm
  sentDiagnostics :: "PublishDiagnosticsParams list"

definition onDidClose ::
  "('sm \<Rightarrow> Resource \<Rightarrow> 'sm) \<Rightarrow> ('sm, 'dm) Handlers \<Rightarrow> Resource \<Rightarrow> ('sm, 'dm) Handlers" where
  "onDidClose delete this documentUri =
     this\<lparr>settingsManager := delete (settingsManager this) documentUri,
          sentDiagnostics := sentDiagnostics this
            @ [\<lparr>PublishDiagnosticsParams.uri = documentUri, diagnostics = []\<rparr>]\<rparr>"

section \<open>The hover service\<close>

text \<open>
  The four query modules, the word sanitizer, the schema separator and the markdown helper
  are not among the sources; they are parameters. A query awaits the database and may
  reject, so it returns a sum. The arguments keep the source's order without the pool and
  the logger: schema, default schema, name.
\<close>

datatype MarkupKind = PlainText | Markdown

record MarkupContent =
  kind :: MarkupKind
  "value" :: string

record Hover =
  contents :: MarkupContent

record ('t, 'v, 'f, 'y) Postgres =
  queryTableDefinitions :: "string option \<Rightarrow> string \<Rightarrow> string \<Rightarrow> error + 't list"
  makeTableDefinitionText :: "'t \<Rightarrow> string"
  queryViewDefinitions :: "string option \<Rightarrow> string \<Rightarrow> string \<Rightarrow> error + 'v list"
  makeViewDefinitionText :: "'v \<Rightarrow> string"
  queryFunctionDefinitions :: "string option \<Rightarrow> string \<Rightarrow> string \<Rightarrow> error + 'f list"
  makeFunctionDefinitionText :: "'f \<Rightarrow> string"
  queryTypeDefinitions :: "string option \<Rightarrow> string \<Rightarrow> string \<Rightarrow> error + 'y list"
  makeTypeDefinitionText :: "'y \<Rightarrow> string"

record wordHelpers =
  sanitizeWordCandidates :: "string \<Rightarrow> string list"
  separateSchemaFromCandidate :: "string \<Rightarrow> (string option \<times> string) option"
  makePostgresCodeMarkdown :: "string \<Rightarrow> string"

record HoverParams =
  textDocument :: TextDocumentIdentifier
  position :: Position

text \<open>\<^verbatim>\<open>definitionTexts.join("\n\n")\<close>\<close>

fun join :: "string \<Rightarrow> string list \<Rightarrow> string" where
  "join sep [] = []"
| "join sep [x] = x"
| "join sep (x # y # ys) = x @ sep @ join sep (y # ys)"

definition makeHover :: "wordHelpers \<Rightarrow> string list \<Rightarrow> Hover option" where
  "makeHover w definitionTexts =
     (if length definitionTexts = 0 then None
      else
        let code = join [CHR 0x0A, CHR 0x0A] definitionTexts in
        Some \<lparr>contents = \<lparr>kind = Markdown, value = makePostgresCodeMarkdown w code\<rparr>\<rparr>)"

definition getTableHover ::
  "('t, 'v, 'f, 'y) Postgres \<Rightarrow> wordHelpers \<Rightarrow> string option \<Rightarrow> string \<Rightarrow> string
     \<Rightarrow> error + Hover option" where
  "getTableHover pg w schema tableName defaultSchema =
     (case queryTableDefinitions pg schema defaultSchema tableName of
        Inl err \<Rightarrow> Inl err
      | Inr definitions \<Rightarrow> Inr (makeHover w (map (makeTableDefinitionText pg) definitions)))"

definition getViewHover ::
  "('t, 'v, 'f, 'y) Postgres \<Rightarrow> wordHelpers \<Rightarrow> string option \<Rightarrow> string \<Rightarrow> string
     \<Rightarrow> error + Hover option" where
  "getViewHover pg w schema tableName defaultSchema =
     (case queryViewDefinitions pg schema defaultSchema tableName of
        Inl err \<Rightarrow> Inl err
      | Inr definitions \<Rightarrow> Inr (makeHover w (map (makeViewDefinitionText pg) definitions)))"

definition getFunctionHover ::
  "('t, 'v, 'f, 'y) Postgres \<Rightarrow> wordHelpers \<Rightarrow> string option \<Rightarrow> string \<Rightarrow> string
     \<Rightarrow> error + Hover option" where
  "getFunctionHover pg w schema functionName defaultSchema =
     (case queryFunctionDefinitions pg schema defaultSchema functionName of
        Inl err \<Rightarrow> Inl err
      | Inr definitions \<Rightarrow>
          Inr (makeHover w (map (makeFunctionDefinitionText pg) definitions)))"

definition getTypeHover ::
  "('t, 'v, 'f, 'y) Postgres \<Rightarrow> wordHelpers \<Rightarrow> string option \<Rightarrow> string \<Rightarrow> string
     \<Rightarrow> error + Hover option" where
  "getTypeHover pg w schema typeName defaultSchema =
     (case queryTypeDefinitions pg schema defaultSchema typeName of
        Inl err \<Rightarrow> Inl err
      | Inr definitions \<Rightarrow> Inr (makeHover w (map (makeTypeDefinitionText pg) definitions)))"

text \<open>
  The loop of \<^verbatim>\<open>getHover\<close> over the sanitized candidates: a candidate whose schema
  cannot be separated is passed over (\<^verbatim>\<open>continue\<close>); each check returns at once when its
  hover is defined.
\<close>

fun hoverCandidates ::
  "('t, 'v, 'f, 'y) Postgres \<Rightarrow> wordHelpers \<Rightarrow> string \<Rightarrow> string list
     \<Rightarrow> error + Hover option" where
  "hoverCandidates pg w defaultSchema [] = Inr None"
| "hoverCandidates pg w defaultSchema (wordCandidate # rest) =
     (case separateSchemaFromCandidate w wordCandidate of
        None \<Rightarrow> hoverCandidates pg w defaultSchema rest
      | Some (schema, candidate) \<Rightarrow>
          (case getTableHover pg w schema candidate defaultSchema of
             Inl err \<Rightarrow> Inl err
           | Inr (Some tableHover) \<Rightarrow> Inr (Some tableHover)
           | Inr None \<Rightarrow>
          (case getViewHover pg w schema candidate defaultSchema of
             Inl err \<Rightarrow> Inl err
           | Inr (Some viewHover) \<Rightarrow> Inr (Some viewHover)
           | Inr None \<Rightarrow>
          (case getFunctionHover pg w schema candidate defaultSchema of
             Inl err \<Rightarrow> Inl err
           | Inr (Some functionHover) \<Rightarrow> Inr (Some functionHover)
           | Inr None \<Rightarrow>
          (case getTypeHover pg w schema candidate defaultSchema of
             Inl err \<Rightarrow> Inl err
           | Inr (Some typeHover) \<Rightarrow> Inr (Some typeHover)
           | Inr None \<Rightarrow> hoverCandidates pg w defaultSchema rest)))))"

definition getHover ::
  "('t, 'v, 'f, 'y) Postgres \<Rightarrow> wordHelpers \<Rightarrow> 'doc textHelpers \<Rightarrow> HoverParams \<Rightarrow> 'doc
     \<Rightarrow> string \<Rightarrow> error + Hover option" where
  "getHover pg w h params document defaultSchema =
     (case getWordRangeAtPosition h document (HoverParams.position params) of
        None \<Rightarrow> Inr None
      | Some wordRange \<Rightarrow>
          (let word = getText h document wordRange;
               sanitizedWordCandidates = sanitizeWordCandidates w word
           in hoverCandidates pg w defaultSchema sanitizedWordCandidates))"

section \<open>The operations as the specification words them\<close>

text \<open>
  Modelled from the spec: the Identifier Candidate Generator is not among the sources. A
  part in double quotes is stripped of one level of quoting and kept verbatim; an unquoted
  part is tried as written and in lower case; a token with a \<^verbatim>\<open>.\<close> is split into schema
  and name, each under these rules; a token without one is tried under the default schema
  and then, as the fallback, without a schema; an empty or malformed token has no form.
\<close>

definition toLowerChar :: "char \<Rightarrow> char" where
  "toLowerChar c =
     (case map_of (zip ''ABCDEFGHIJKLMNOPQRSTUVWXYZ'' ''abcdefghijklmnopqrstuvwxyz'') c of
        None \<Rightarrow> c
      | Some l \<Rightarrow> l)"

definition isQuoted :: "string \<Rightarrow> bool" where
  "isQuoted s = (2 \<le> length s \<and> hd s = CHR 0x22 \<and> last s = CHR 0x22)"

definition partForms :: "string \<Rightarrow> string list" where
  "partForms part =
     (if isQuoted part then [butlast (tl part)]
      else remdups [part, map toLowerChar part])"

definition identifierCandidates_spec :: "string \<Rightarrow> string \<Rightarrow> string list" where
  "identifierCandidates_spec defaultSchema token =
     (if token = [] then []
      else if CHR ''.'' \<in> set token then
        (let schema = takeWhile (\<lambda>c. c \<noteq> CHR ''.'') token;
             name = drop 1 (dropWhile (\<lambda>c. c \<noteq> CHR ''.'') token)
         in if schema = [] \<or> name = [] then []
            else remdups (concat (map (\<lambda>s. map (\<lambda>n. s @ ''.'' @ n) (partForms name))
                                   (partForms schema))))
      else remdups (map (\<lambda>n. defaultSchema @ ''.'' @ n) (partForms token)
                      @ partForms token))"

text \<open>
  The resolve operation in the spec's words: the candidate forms are looked up in generator
  order and the list of the first form with a non-empty match is returned, the matches of
  different forms never being merged. \<open>resolveForms\<close> is that search over a given sequence
  of forms, \<open>resolve_spec\<close> the search over the generator's forms.
\<close>

definition resolveForms :: "DefinitionMap \<Rightarrow> string list \<Rightarrow> DefinitionLink list" where
  "resolveForms dm forms =
     (case filter (\<lambda>links. links \<noteq> []) (map (DefinitionMap_getDefinitionLinks dm) forms) of
        [] \<Rightarrow> []
      | links # _ \<Rightarrow> links)"

definition resolve_spec :: "DefinitionMap \<Rightarrow> string \<Rightarrow> string \<Rightarrow> DefinitionLink list" where
  "resolve_spec dm defaultSchema cursorToken =
     resolveForms dm (identifierCandidates_spec defaultSchema cursorToken)"

text \<open>
  The checks of a hover request in the order in which \<^verbatim>\<open>getHover\<close> is said to make
  them: candidate by candidate, and for each candidate table, view, function, type. The
  first check whose outcome is not "undefined" decides the request.
\<close>

definition hoverChecks ::
  "('t, 'v, 'f, 'y) Postgres \<Rightarrow> wordHelpers \<Rightarrow> string \<Rightarrow> string list
     \<Rightarrow> (error + Hover option) list" where
  "hoverChecks pg w defaultSchema wordCandidates =
     concat (map (\<lambda>(schema, candidate).
        [getTableHover pg w schema candidate defaultSchema,
         getViewHover pg w schema candidate defaultSchema,
         getFunctionHover pg w schema candidate defaultSchema,
         getTypeHover pg w schema candidate defaultSchema])
       (List.map_filter (separateSchemaFromCandidate w) wordCandidates))"

definition firstDecided :: "(error + Hover option) list \<Rightarrow> error + Hover option" where
  "firstDecided checks =
     (case dropWhile (\<lambda>r. r = Inr None) checks of
        [] \<Rightarrow> Inr None
      | r # _ \<Rightarrow> r)"

text \<open>
  The hover request as the claim words it: the definition texts that each check yields, in
  the same order (a query that rejects yields no definition text), and the hover of the
  first check that yields at least one text, undefined if no check yields any.
\<close>

definition yieldedTexts :: "('d \<Rightarrow> string) \<Rightarrow> error + 'd list \<Rightarrow> string list" where
  "yieldedTexts makeText queried =
     (case queried of
        Inl err \<Rightarrow> []
      | Inr definitions \<Rightarrow> map makeText definitions)"

definition hoverTexts_claimed ::
  "('t, 'v, 'f, 'y) Postgres \<Rightarrow> wordHelpers \<Rightarrow> string \<Rightarrow> string list \<Rightarrow> string list list" where
  "hoverTexts_claimed pg w defaultSchema wordCandidates =
     concat (map (\<lambda>(schema, candidate).
        [yieldedTexts (makeTableDefinitionText pg)
           (queryTableDefinitions pg schema defaultSchema candidate),
         yieldedTexts (makeViewDefinitionText pg)
           (queryViewDefinitions pg schema defaultSchema candidate),
         yieldedTexts (makeFunctionDefinitionText pg)
           (queryFunctionDefinitions pg schema defaultSchema candidate),
         yieldedTexts (makeTypeDefinitionText pg)
           (queryTypeDefinitions pg schema defaultSchema candidate)])
       (List.map_filter (separateSchemaFromCandidate w) wordCandidates))"

definition getHover_claimed ::
  "('t, 'v, 'f, 'y) Postgres \<Rightarrow> wordHelpers \<Rightarrow> string \<Rightarrow> string list \<Rightarrow> Hover option" where
  "getHover_claimed pg w defaultSchema wordCandidates =
     (case filter (\<lambda>texts. texts \<noteq> []) (hoverTexts_claimed pg w defaultSchema wordCandidates) of
        [] \<Rightarrow> None
      | texts # _ \<Rightarrow> makeHover w texts)"

section \<open>Example inputs\<close>

text \<open>
  The parser's output for each statement kind, as far as the modelled fields go: exactly
  one field of the statement item is populated.
\<close>

definition noItem :: StatementItem where
  "noItem = \<lparr>CreateStmt = None, ViewStmt = None, CompositeTypeStmt = None,
     CreateFunctionStmt = None, CreateTrigStmt = None, IndexStmt = None\<rparr>"

definition tableStmt :: "string option \<Rightarrow> string \<Rightarrow> Statement" where
  "tableStmt sch n = \<lparr>stmt = Some (noItem\<lparr>CreateStmt := Some \<lparr>CreateStmt.relation =
     Some \<lparr>CreateStmtRelation.schemaname = sch, CreateStmtRelation.relname = Some n\<rparr>\<rparr>\<rparr>)\<rparr>"

definition viewStmt :: "string option \<Rightarrow> string \<Rightarrow> Statement" where
  "viewStmt sch n = \<lparr>stmt = Some (noItem\<lparr>ViewStmt := Some \<lparr>view =
     Some \<lparr>ViewStmtRelation.schemaname = sch, ViewStmtRelation.relname = Some n\<rparr>\<rparr>\<rparr>)\<rparr>"

definition compositeTypeStmt :: "string option \<Rightarrow> string \<Rightarrow> Statement" where
  "compositeTypeStmt sch n = \<lparr>stmt = Some (noItem\<lparr>CompositeTypeStmt := Some \<lparr>typevar =
     Some \<lparr>CompositeTypeStmtTypevar.schemaname = sch,
           CompositeTypeStmtTypevar.relname = Some n\<rparr>\<rparr>\<rparr>)\<rparr>"

definition funcNames :: "string list \<Rightarrow> FuncName list" where
  "funcNames names = map (\<lambda>n. \<lparr>String = Some \<lparr>str = Some n\<rparr>\<rparr>) names"

definition functionStmt :: "string list \<Rightarrow> Statement" where
  "functionStmt names = \<lparr>stmt = Some (noItem\<lparr>CreateFunctionStmt := Some
     \<lparr>is_procedure = None, CreateFunctionStmt.funcname = Some (funcNames names)\<rparr>\<rparr>)\<rparr>"

definition triggerStmt :: "string \<Rightarrow> string \<Rightarrow> string list \<Rightarrow> Statement" where
  "triggerStmt n table names = \<lparr>stmt = Some (noItem\<lparr>CreateTrigStmt := Some
     \<lparr>trigname = Some n,
      CreateTrigStmt.relation = Some \<lparr>CreateTrigStmtRelation.relname = Some table\<rparr>,
      CreateTrigStmt.funcname = Some (funcNames names)\<rparr>\<rparr>)\<rparr>"

definition indexStmt :: "string \<Rightarrow> Statement" where
  "indexStmt n = \<lparr>stmt = Some (noItem\<lparr>IndexStmt := Some \<lparr>idxname = Some n\<rparr>\<rparr>)\<rparr>"

text \<open>
  A workspace \<^verbatim>\<open>file:///w\<close> whose pattern matches four files: the parser rejects the
  second, and the third cannot be read. The parses settle in the order in which they were
  started.
\<close>

definition exampleEnv :: env where
  "exampleEnv =
     \<lparr>readFileSync = (\<lambda>path.
        if path = ''/w/a.sql'' then Inr ''CREATE TABLE public.users (id int);''
        else if path = ''/w/bad.sql'' then Inr ''CREATE TABEL oops;''
        else if path = ''/w/f.sql''
        then Inr ''CREATE FUNCTION get_user() RETURNS int AS $$ SELECT 1 $$ LANGUAGE sql;''
        else Inl ReadError),
      parseQuery = (\<lambda>text.
        if text = ''CREATE TABLE public.users (id int);''
        then Inr (Some \<lparr>stmts = Some [tableStmt (Some ''public'') ''users'']\<rparr>)
        else if text = ''CREATE FUNCTION get_user() RETURNS int AS $$ SELECT 1 $$ LANGUAGE sql;''
        then Inr (Some \<lparr>stmts = Some [functionStmt [''get_user'']]\<rparr>)
        else Inl ParseError),
      glob = (\<lambda>pattern.
        if pattern = ''*.sql'' then [''a.sql'', ''bad.sql'', ''gone.sql'', ''f.sql''] else []),
      getDocumentSettings = (\<lambda>resource. \<lparr>definitionFiles = Some [''*.sql'']\<rparr>),
      getWorkSpaceFolder = (\<lambda>resource. Some \<lparr>WorkspaceFolder.uri = ''file:///w''\<rparr>),
      settlesNext = (\<lambda>inFlight. 0)\<rparr>"

text \<open>
  Documents of a single line whose word range is the whole line; \<open>exampleSpace\<close> has four
  open documents (the third holds \<^verbatim>\<open>get_user\<close> in double quotes) and an empty index,
  \<open>indexedSpace\<close> has the declarations of \<^verbatim>\<open>CREATE FUNCTION get_user()\<close> installed,
  \<open>tableSpace\<close> those of \<^verbatim>\<open>CREATE TABLE public.users\<close>.
\<close>

definition lineHelpers :: "string textHelpers" where
  "lineHelpers =
     \<lparr>getWordRangeAtPosition = (\<lambda>document p.
        if document = [] then None
        else Some (Range_create (Position_create 0 0) (Position_create 0 (length document)))),
      getText = (\<lambda>document r.
        take (character (end' r) - character (start r)) (drop (character (start r)) document))\<rparr>"

definition exampleSpace :: "string Space" where
  "exampleSpace =
     \<lparr>documents = (\<lambda>u.
        if u = ''file:///w/q.sql'' then Some ''GET_USER''
        else if u = ''file:///w/r.sql'' then Some ''get_user''
        else if u = ''file:///w/s.sql'' then Some (CHR 0x22 # ''get_user'' @ [CHR 0x22])
        else if u = ''file:///w/t.sql'' then Some ''users''
        else None),
      definitionMap = []\<rparr>"

definition indexedSpace :: "string Space" where
  "indexedSpace =
     exampleSpace\<lparr>definitionMap :=
       updateCandidates [] ''file:///w/f.sql''
         (createStmts [functionStmt [''get_user'']] ''file:///w/f.sql'')\<rparr>"

definition tableSpace :: "string Space" where
  "tableSpace =
     exampleSpace\<lparr>definitionMap :=
       updateCandidates [] ''file:///w/a.sql''
         (createStmts [tableStmt (Some ''public'') ''users''] ''file:///w/a.sql'')\<rparr>"

definition paramsAt :: "Resource \<Rightarrow> DefinitionParams" where
  "paramsAt u =
     \<lparr>DefinitionParams.textDocument = \<lparr>TextDocumentIdentifier.uri = u\<rparr>,
      DefinitionParams.position = Position_create 0 3\<rparr>"

definition exampleParams :: DefinitionParams where
  "exampleParams =
     \<lparr>DefinitionParams.textDocument = \<lparr>TextDocumentIdentifier.uri = ''file:///w/q.sql''\<rparr>,
      DefinitionParams.position = Position_create 0 3\<rparr>"

text \<open>
  A database that knows one view \<^verbatim>\<open>users\<close> and nothing else, with a sanitizer that
  offers the word as written and in lower case.
\<close>

definition examplePostgres :: "(string, string, string, string) Postgres" where
  "examplePostgres =
     \<lparr>queryTableDefinitions = (\<lambda>schema defaultSchema name. Inr []),
      makeTableDefinitionText = (\<lambda>d. ''Table '' @ d),
      queryViewDefinitions = (\<lambda>schema defaultSchema name.
        if name = ''users'' then Inr [''public.users''] else Inr []),
      makeViewDefinitionText = (\<lambda>d. ''View '' @ d),
      queryFunctionDefinitions = (\<lambda>schema defaultSchema name. Inr []),
      makeFunctionDefinitionText = (\<lambda>d. ''Function '' @ d),
      queryTypeDefinitions = (\<lambda>schema defaultSchema name. Inr []),
      makeTypeDefinitionText = (\<lambda>d. ''Type '' @ d)\<rparr>"

text \<open>
  The same database when its function query rejects, and a database that knows nothing and
  whose table query rejects.
\<close>

definition functionQueryRejects :: "(string, string, string, string) Postgres" where
  "functionQueryRejects =
     examplePostgres\<lparr>queryFunctionDefinitions :=
       (\<lambda>schema defaultSchema name. Inl QueryError)\<rparr>"

definition tableQueryRejects :: "(string, string, string, string) Postgres" where
  "tableQueryRejects =
     examplePostgres\<lparr>queryTableDefinitions :=
         (\<lambda>schema defaultSchema name. Inl QueryError),
       queryViewDefinitions := (\<lambda>schema defaultSchema name. Inr [])\<rparr>"

definition exampleWordHelpers :: wordHelpers where
  "exampleWordHelpers =
     \<lparr>sanitizeWordCandidates = (\<lambda>word. [word, map toLowerChar word]),
      separateSchemaFromCandidate = (\<lambda>c.
        if CHR ''.'' \<in> set c then None else Some (None, c)),
      makePostgresCodeMarkdown = (\<lambda>code. ''postgres: '' @ code)\<rparr>"

definition exampleHoverParams :: HoverParams where
  "exampleHoverParams =
     \<lparr>HoverParams.textDocument = \<lparr>TextDocumentIdentifier.uri = ''file:///w/q.sql''\<rparr>,
      HoverParams.position = Position_create 0 3\<rparr>"

section \<open>Properties of the extraction\<close>

lemmas extract_defs =
  createStmts_def getCreateStmts_def getCompositeTypeStmts_def getCreateFunctionStmts_def

lemmas example_defs =
  noItem_def tableStmt_def viewStmt_def compositeTypeStmt_def functionStmt_def
  triggerStmt_def indexStmt_def funcNames_def

text \<open>Each pass is a \<^verbatim>\<open>flatMap\<close>, so it distributes over the statement list.\<close>

lemma getCreateStmts_append:
  "getCreateStmts (xs @ ys) r = getCreateStmts xs r @ getCreateStmts ys r"
  by (simp add: getCreateStmts_def)

lemma getCompositeTypeStmts_append:
  "getCompositeTypeStmts (xs @ ys) r = getCompositeTypeStmts xs r @ getCompositeTypeStmts ys r"
  by (simp add: getCompositeTypeStmts_def)

lemma getCreateFunctionStmts_append:
  "getCreateFunctionStmts (xs @ ys) r
     = getCreateFunctionStmts xs r @ getCreateFunctionStmts ys r"
  by (simp add: getCreateFunctionStmts_def)

lemma getCreateStmts_Cons:
  "getCreateStmts (s # ys) r = getCreateStmts [s] r @ getCreateStmts ys r"
  by (simp add: getCreateStmts_def)

lemma getCompositeTypeStmts_Cons:
  "getCompositeTypeStmts (s # ys) r = getCompositeTypeStmts [s] r @ getCompositeTypeStmts ys r"
  by (simp add: getCompositeTypeStmts_def)

lemma getCreateFunctionStmts_Cons:
  "getCreateFunctionStmts (s # ys) r
     = getCreateFunctionStmts [s] r @ getCreateFunctionStmts ys r"
  by (simp add: getCreateFunctionStmts_def)

lemma getCreateStmts_skip:
  "getCreateStmts [s] r = [] \<Longrightarrow>
     getCreateStmts (pre @ s # post) r = getCreateStmts (pre @ post) r"
  by (simp add: getCreateStmts_append getCreateStmts_Cons [of s post])

lemma getCompositeTypeStmts_skip:
  "getCompositeTypeStmts [s] r = [] \<Longrightarrow>
     getCompositeTypeStmts (pre @ s # post) r = getCompositeTypeStmts (pre @ post) r"
  by (simp add: getCompositeTypeStmts_append getCompositeTypeStmts_Cons [of s post])

lemma getCreateFunctionStmts_skip:
  "getCreateFunctionStmts [s] r = [] \<Longrightarrow>
     getCreateFunctionStmts (pre @ s # post) r = getCreateFunctionStmts (pre @ post) r"
  by (simp add: getCreateFunctionStmts_append getCreateFunctionStmts_Cons [of s post])

lemma createStmts_skip:
  assumes "createStmts [s] r = []"
  shows "createStmts (pre @ s # post) r = createStmts (pre @ post) r"
  using assms
  by (simp add: createStmts_def getCreateStmts_skip getCompositeTypeStmts_skip
      getCreateFunctionStmts_skip)

text \<open>
  What one statement adds to the declarations of a list, whatever surrounds it. The three
  passes are concatenated, so the position of the additions depends on the pass; the
  multiset does not.
\<close>

lemma createStmts_context:
  "mset (createStmts (pre @ s # post) r)
     = mset (createStmts [s] r) + mset (createStmts (pre @ post) r)"
  by (simp add: createStmts_def getCreateStmts_append getCompositeTypeStmts_append
      getCreateFunctionStmts_append getCreateStmts_Cons [of s post]
      getCompositeTypeStmts_Cons [of s post] getCreateFunctionStmts_Cons [of s post])

text \<open>The declarations of a single statement of each kind.\<close>

lemma createStmts_table:
  "createStmts [\<lparr>stmt = Some (noItem\<lparr>CreateStmt := Some cs\<rparr>)\<rparr>] r =
     (case CreateStmt.relation cs of
        None \<Rightarrow> []
      | Some rel \<Rightarrow>
          (case (CreateStmtRelation.schemaname rel, CreateStmtRelation.relname rel) of
             (Some sch, Some n) \<Rightarrow>
               [\<lparr>definition' = sch @ ''.'' @ n,
                 definitionLink = LocationLink_create r zeroRange zeroRange None\<rparr>]
           | _ \<Rightarrow> []))"
  by (simp add: extract_defs noItem_def split: option.splits)

lemma createStmts_view:
  "createStmts [\<lparr>stmt = Some (noItem\<lparr>ViewStmt := Some v\<rparr>)\<rparr>] r = []"
  by (simp add: extract_defs noItem_def)

lemma createStmts_trigger:
  "createStmts [\<lparr>stmt = Some (noItem\<lparr>CreateTrigStmt := Some t\<rparr>)\<rparr>] r = []"
  by (simp add: extract_defs noItem_def)

lemma createStmts_index:
  "createStmts [\<lparr>stmt = Some (noItem\<lparr>IndexStmt := Some i\<rparr>)\<rparr>] r = []"
  by (simp add: extract_defs noItem_def)

lemma createStmts_type:
  "createStmts [\<lparr>stmt = Some (noItem\<lparr>CompositeTypeStmt := Some ct\<rparr>)\<rparr>] r =
     (case typevar ct \<bind> CompositeTypeStmtTypevar.relname of
        None \<Rightarrow> []
      | Some n \<Rightarrow>
          [\<lparr>definition' = n,
            definitionLink = LocationLink_create r zeroRange zeroRange None\<rparr>])"
  by (simp add: extract_defs noItem_def split: option.splits)

lemma funcname_candidates:
  "map (\<lambda>fn. FuncName.String fn \<bind> FuncNameString.str) names = map Some ds \<Longrightarrow>
   concat (map (\<lambda>funcname.
       case FuncName.String funcname \<bind> FuncNameString.str of
         None \<Rightarrow> []
       | Some d \<Rightarrow> [\<lparr>definition' = d,
            definitionLink = LocationLink_create r zeroRange zeroRange None\<rparr>]) names)
     = map (\<lambda>d. \<lparr>definition' = d,
            definitionLink = LocationLink_create r zeroRange zeroRange None\<rparr>) ds"
  by (induction names arbitrary: ds) auto

lemma createStmts_function:
  assumes "CreateFunctionStmt.funcname cf = Some names"
    and "map (\<lambda>fn. FuncName.String fn \<bind> FuncNameString.str) names = map Some ds"
  shows "createStmts [\<lparr>stmt = Some (noItem\<lparr>CreateFunctionStmt := Some cf\<rparr>)\<rparr>] r =
     map (\<lambda>d. \<lparr>definition' = d,
            definitionLink = LocationLink_create r zeroRange zeroRange None\<rparr>) ds"
proof (cases names)
  case Nil
  with assms show ?thesis by (simp add: extract_defs noItem_def)
next
  case (Cons a list)
  then have "length names \<noteq> 0" by simp
  with assms(1) funcname_candidates [OF assms(2), of r] show ?thesis
    by (simp add: extract_defs noItem_def)
qed

lemma link_fields:
  "c \<in> set (createStmts ss r) \<Longrightarrow>
     definitionLink c = LocationLink_create r zeroRange zeroRange None"
  by (auto simp: extract_defs Let_def split: option.splits if_splits prod.splits)

subsection \<open>The link of a declaration\<close>

text \<open>
  Claim C9, as stated: every declaration's link has target range, target selection range
  and origin span equal to the zero-width range at line 0, character 0. The extraction
  passes three arguments to \<^verbatim>\<open>LocationLink.create\<close>, so the link has no origin span at
  all: for the declaration of \<^verbatim>\<open>CREATE TABLE public.users\<close> the origin selection range is
  undefined, not the zero range.
\<close>

theorem createStmts_link_origin_absent:
  "createStmts [tableStmt (Some ''public'') ''users''] ''file:///w/a.sql'' \<noteq> [] \<and>
   originSelectionRange (definitionLink
      (hd (createStmts [tableStmt (Some ''public'') ''users''] ''file:///w/a.sql'')))
     \<noteq> Some \<lparr>start = \<lparr>line = 0, character = 0\<rparr>, end' = \<lparr>line = 0, character = 0\<rparr>\<rparr>"
  by (simp add: extract_defs example_defs LocationLink_create_def)

text \<open>
  Claim C9, amended: every declaration produced by the extraction carries a link whose
  target is the owning file and whose target range and target selection range are both the
  zero-width range at line 0, character 0, wherever the statement stands in the text; the
  link has no origin selection range.
\<close>

theorem createStmts_link_target_zero_range:
  assumes "c \<in> set (createStmts ss resource)"
  shows "targetUri (definitionLink c) = resource \<and>
     targetRange (definitionLink c)
       = \<lparr>start = \<lparr>line = 0, character = 0\<rparr>, end' = \<lparr>line = 0, character = 0\<rparr>\<rparr> \<and>
     targetSelectionRange (definitionLink c)
       = \<lparr>start = \<lparr>line = 0, character = 0\<rparr>, end' = \<lparr>line = 0, character = 0\<rparr>\<rparr> \<and>
     originSelectionRange (definitionLink c) = None"
  using link_fields [OF assms]
  by (simp add: LocationLink_create_def zeroRange_def Range_create_def Position_create_def)

theorem createStmts_link_target_zero_range_witness:
  "\<lparr>definition' = ''get_user'',
     definitionLink = LocationLink_create ''file:///w/f.sql'' zeroRange zeroRange None\<rparr>
     \<in> set (createStmts [tableStmt (Some ''public'') ''users'', functionStmt [''get_user'']]
          ''file:///w/f.sql'') \<and>
   targetUri (LocationLink_create ''file:///w/f.sql'' zeroRange zeroRange None)
     = ''file:///w/f.sql'' \<and>
   targetRange (LocationLink_create ''file:///w/f.sql'' zeroRange zeroRange None)
     = \<lparr>start = \<lparr>line = 0, character = 0\<rparr>, end' = \<lparr>line = 0, character = 0\<rparr>\<rparr> \<and>
   originSelectionRange (LocationLink_create ''file:///w/f.sql'' zeroRange zeroRange None)
     = None"
proof -
  have h: "\<lparr>definition' = ''get_user'',
     definitionLink = LocationLink_create ''file:///w/f.sql'' zeroRange zeroRange None\<rparr>
     \<in> set (createStmts [tableStmt (Some ''public'') ''users'', functionStmt [''get_user'']]
          ''file:///w/f.sql'')"
    by (simp add: extract_defs example_defs)
  from h createStmts_link_target_zero_range [OF h] show ?thesis by simp
qed

subsection \<open>Tables, views and composite types\<close>

text \<open>
  Claim C2, as stated: each table-creation, view-creation and composite-type-creation
  statement yields exactly one declaration, named with the declared schema when there is
  one and with the bare name otherwise. On the code, \<^verbatim>\<open>CREATE TABLE users\<close> (no schema)
  yields no declaration, \<^verbatim>\<open>CREATE VIEW public.active_users\<close> yields none, and
  \<^verbatim>\<open>CREATE TYPE api.pair\<close> is stored as \<^verbatim>\<open>pair\<close>, without its schema.
\<close>

theorem createStmts_schemaless_table_view_type:
  "createStmts [tableStmt None ''users''] ''file:///w/a.sql'' = [] \<and>
   createStmts [viewStmt (Some ''public'') ''active_users''] ''file:///w/a.sql'' = [] \<and>
   map definition' (createStmts [compositeTypeStmt (Some ''api'') ''pair''] ''file:///w/a.sql'')
     = [''pair'']"
  by (simp add: extract_defs example_defs)

text \<open>
  Claim C2, amended: in every statement list, a table-creation statement whose relation
  has both a schema and a name yields exactly one declaration, named schema.name; a
  table-creation statement without a schema yields none; a view-creation statement yields
  none; a composite-type-creation statement with a type name yields exactly one
  declaration, stored under the bare type name whether or not a schema is declared.
\<close>

theorem createStmts_table_view_type:
  "(CreateStmt.relation cs = Some rel \<and> CreateStmtRelation.schemaname rel = Some sch
      \<and> CreateStmtRelation.relname rel = Some n \<longrightarrow>
      mset (createStmts (pre @ \<lparr>stmt = Some (noItem\<lparr>CreateStmt := Some cs\<rparr>)\<rparr> # post) r)
        = add_mset \<lparr>definition' = sch @ ''.'' @ n,
             definitionLink = LocationLink_create r zeroRange zeroRange None\<rparr>
            (mset (createStmts (pre @ post) r))) \<and>
   (CreateStmt.relation cs' = Some rel' \<and> CreateStmtRelation.schemaname rel' = None \<longrightarrow>
      createStmts (pre @ \<lparr>stmt = Some (noItem\<lparr>CreateStmt := Some cs'\<rparr>)\<rparr> # post) r
        = createStmts (pre @ post) r) \<and>
   createStmts (pre @ \<lparr>stmt = Some (noItem\<lparr>ViewStmt := Some v\<rparr>)\<rparr> # post) r
     = createStmts (pre @ post) r \<and>
   (typevar ct = Some tv \<and> CompositeTypeStmtTypevar.relname tv = Some m \<longrightarrow>
      mset (createStmts (pre @ \<lparr>stmt = Some (noItem\<lparr>CompositeTypeStmt := Some ct\<rparr>)\<rparr> # post) r)
        = add_mset \<lparr>definition' = m,
             definitionLink = LocationLink_create r zeroRange zeroRange None\<rparr>
            (mset (createStmts (pre @ post) r)))"
proof (intro conjI impI)
  assume "CreateStmt.relation cs = Some rel \<and> CreateStmtRelation.schemaname rel = Some sch
      \<and> CreateStmtRelation.relname rel = Some n"
  then show "mset (createStmts (pre @ \<lparr>stmt = Some (noItem\<lparr>CreateStmt := Some cs\<rparr>)\<rparr> # post) r)
        = add_mset \<lparr>definition' = sch @ ''.'' @ n,
             definitionLink = LocationLink_create r zeroRange zeroRange None\<rparr>
            (mset (createStmts (pre @ post) r))"
    by (simp add: createStmts_context createStmts_table)
next
  assume "CreateStmt.relation cs' = Some rel' \<and> CreateStmtRelation.schemaname rel' = None"
  then have "createStmts [\<lparr>stmt = Some (noItem\<lparr>CreateStmt := Some cs'\<rparr>)\<rparr>] r = []"
    by (simp add: createStmts_table)
  then show "createStmts (pre @ \<lparr>stmt = Some (noItem\<lparr>CreateStmt := Some cs'\<rparr>)\<rparr> # post) r
        = createStmts (pre @ post) r"
    by (rule createStmts_skip)
next
  show "createStmts (pre @ \<lparr>stmt = Some (noItem\<lparr>ViewStmt := Some v\<rparr>)\<rparr> # post) r
     = createStmts (pre @ post) r"
    by (rule createStmts_skip) (rule createStmts_view)
next
  assume "typevar ct = Some tv \<and> CompositeTypeStmtTypevar.relname tv = Some m"
  then show "mset (createStmts (pre @ \<lparr>stmt = Some (noItem\<lparr>CompositeTypeStmt := Some ct\<rparr>)\<rparr> # post) r)
        = add_mset \<lparr>definition' = m,
             definitionLink = LocationLink_create r zeroRange zeroRange None\<rparr>
            (mset (createStmts (pre @ post) r))"
    by (simp add: createStmts_context createStmts_type)
qed

theorem createStmts_table_view_type_witness:
  "mset (createStmts ([functionStmt [''f'']] @ tableStmt (Some ''public'') ''users''
           # [indexStmt ''i'']) ''file:///w/a.sql'')
     = add_mset \<lparr>definition' = ''public'' @ ''.'' @ ''users'',
          definitionLink = LocationLink_create ''file:///w/a.sql'' zeroRange zeroRange None\<rparr>
         (mset (createStmts ([functionStmt [''f'']] @ [indexStmt ''i'']) ''file:///w/a.sql'')) \<and>
   createStmts ([functionStmt [''f'']] @ tableStmt None ''users'' # [indexStmt ''i''])
       ''file:///w/a.sql''
     = createStmts ([functionStmt [''f'']] @ [indexStmt ''i'']) ''file:///w/a.sql'' \<and>
   createStmts ([functionStmt [''f'']] @ viewStmt (Some ''public'') ''active_users''
       # [indexStmt ''i'']) ''file:///w/a.sql''
     = createStmts ([functionStmt [''f'']] @ [indexStmt ''i'']) ''file:///w/a.sql'' \<and>
   mset (createStmts ([functionStmt [''f'']] @ compositeTypeStmt (Some ''api'') ''pair''
           # [indexStmt ''i'']) ''file:///w/a.sql'')
     = add_mset \<lparr>definition' = ''pair'',
          definitionLink = LocationLink_create ''file:///w/a.sql'' zeroRange zeroRange None\<rparr>
         (mset (createStmts ([functionStmt [''f'']] @ [indexStmt ''i'']) ''file:///w/a.sql''))"
  using createStmts_table_view_type [of
      "\<lparr>CreateStmt.relation = Some \<lparr>CreateStmtRelation.schemaname = Some ''public'',
          CreateStmtRelation.relname = Some ''users''\<rparr>\<rparr>"
      "\<lparr>CreateStmtRelation.schemaname = Some ''public'',
          CreateStmtRelation.relname = Some ''users''\<rparr>"
      "''public''" "''users''" "[functionStmt [''f'']]" "[indexStmt ''i'']" "''file:///w/a.sql''"
      "\<lparr>CreateStmt.relation = Some \<lparr>CreateStmtRelation.schemaname = None,
          CreateStmtRelation.relname = Some ''users''\<rparr>\<rparr>"
      "\<lparr>CreateStmtRelation.schemaname = None, CreateStmtRelation.relname = Some ''users''\<rparr>"
      "\<lparr>view = Some \<lparr>ViewStmtRelation.schemaname = Some ''public'',
          ViewStmtRelation.relname = Some ''active_users''\<rparr>\<rparr>"
      "\<lparr>typevar = Some \<lparr>CompositeTypeStmtTypevar.schemaname = Some ''api'',
          CompositeTypeStmtTypevar.relname = Some ''pair''\<rparr>\<rparr>"
      "\<lparr>CompositeTypeStmtTypevar.schemaname = Some ''api'',
          CompositeTypeStmtTypevar.relname = Some ''pair''\<rparr>"
      "''pair''"]
  unfolding tableStmt_def viewStmt_def compositeTypeStmt_def
  by simp

subsection \<open>Triggers and indexes\<close>

text \<open>
  Claim C3, as stated: each trigger-creation and index-creation statement yields exactly
  one declaration under its bare name. The list handed to the index is built from the
  table, composite-type and function passes only: a \<^verbatim>\<open>CREATE TRIGGER\<close> and a
  \<^verbatim>\<open>CREATE INDEX\<close> yield nothing.
\<close>

theorem createStmts_trigger_index_empty:
  "createStmts [triggerStmt ''users_audit'' ''users'' [''audit'']] ''file:///w/a.sql'' = [] \<and>
   createStmts [indexStmt ''users_email_idx''] ''file:///w/a.sql'' = []"
  by (simp add: extract_defs example_defs)

text \<open>
  Claim C3, amended: in every statement list, a trigger-creation statement and an
  index-creation statement yield no declaration; the declarations of the list are those
  of the list without the statement.
\<close>

theorem createStmts_ignores_trigger_index:
  "createStmts (pre @ \<lparr>stmt = Some (noItem\<lparr>CreateTrigStmt := Some t\<rparr>)\<rparr> # post) r
     = createStmts (pre @ post) r \<and>
   createStmts (pre @ \<lparr>stmt = Some (noItem\<lparr>IndexStmt := Some i\<rparr>)\<rparr> # post) r
     = createStmts (pre @ post) r"
  by (simp add: createStmts_skip createStmts_trigger createStmts_index)

subsection \<open>Functions and procedures\<close>

text \<open>The index holds what was installed for a file, under the installed names.\<close>

lemma entry_updateCandidates:
  "(r, cands) \<in> set (updateCandidates dm r cands)"
  unfolding updateCandidates_def by (induction dm) auto

lemma lookup_updateCandidates:
  assumes "c \<in> set cands"
  shows "definitionLink c
           \<in> set (DefinitionMap_getDefinitionLinks (updateCandidates dm r cands) (definition' c))"
proof -
  have "c \<in> set (concat (map snd (updateCandidates dm r cands)))"
    using assms entry_updateCandidates [of r cands dm] by force
  then show ?thesis by (simp add: DefinitionMap_getDefinitionLinks_def)
qed

text \<open>
  Claim C6: for a function- or procedure-creation statement whose name list has the
  components \<open>ds\<close>, the extraction produces one declaration per component, in order, in
  any statement list; once the file's declarations are installed in the index, each
  component (the bare function name among them) resolves to the link into the file.
\<close>

theorem function_name_components_indexed:
  assumes "CreateFunctionStmt.funcname cf = Some names"
    and "map (\<lambda>fn. FuncName.String fn \<bind> FuncNameString.str) names = map Some ds"
  shows "createStmts [\<lparr>stmt = Some (noItem\<lparr>CreateFunctionStmt := Some cf\<rparr>)\<rparr>] r
       = map (\<lambda>d. \<lparr>definition' = d,
            definitionLink = LocationLink_create r zeroRange zeroRange None\<rparr>) ds \<and>
     mset (createStmts (pre @ \<lparr>stmt = Some (noItem\<lparr>CreateFunctionStmt := Some cf\<rparr>)\<rparr> # post) r)
       = mset (map (\<lambda>d. \<lparr>definition' = d,
            definitionLink = LocationLink_create r zeroRange zeroRange None\<rparr>) ds)
         + mset (createStmts (pre @ post) r) \<and>
     (\<forall>d \<in> set ds. LocationLink_create r zeroRange zeroRange None
        \<in> set (DefinitionMap_getDefinitionLinks
            (updateCandidates dm r
               (createStmts (pre @ \<lparr>stmt = Some (noItem\<lparr>CreateFunctionStmt := Some cf\<rparr>)\<rparr> # post) r))
            d))"
proof -
  let ?s = "\<lparr>stmt = Some (noItem\<lparr>CreateFunctionStmt := Some cf\<rparr>)\<rparr>"
  let ?mk = "\<lambda>d. \<lparr>definition' = d,
            definitionLink = LocationLink_create r zeroRange zeroRange None\<rparr>"
  have one: "createStmts [?s] r = map ?mk ds"
    using assms by (rule createStmts_function)
  have ctx: "mset (createStmts (pre @ ?s # post) r)
       = mset (map ?mk ds) + mset (createStmts (pre @ post) r)"
    by (simp add: createStmts_context one)
  have "LocationLink_create r zeroRange zeroRange None
        \<in> set (DefinitionMap_getDefinitionLinks
            (updateCandidates dm r (createStmts (pre @ ?s # post) r)) d)" if "d \<in> set ds" for d
  proof -
    from that have "?mk d \<in># mset (createStmts (pre @ ?s # post) r)"
      unfolding ctx by simp
    then have "?mk d \<in> set (createStmts (pre @ ?s # post) r)" by simp
    from lookup_updateCandidates [OF this, of dm r] show ?thesis by simp
  qed
  with one ctx show ?thesis by blast
qed

theorem function_name_components_indexed_witness:
  "CreateFunctionStmt.funcname \<lparr>is_procedure = None,
        CreateFunctionStmt.funcname = Some (funcNames [''api'', ''get_user''])\<rparr>
     = Some (funcNames [''api'', ''get_user'']) \<and>
   map (\<lambda>fn. FuncName.String fn \<bind> FuncNameString.str) (funcNames [''api'', ''get_user''])
     = map Some [''api'', ''get_user''] \<and>
   createStmts [functionStmt [''api'', ''get_user'']] ''file:///w/f.sql''
     = map (\<lambda>d. \<lparr>definition' = d,
          definitionLink = LocationLink_create ''file:///w/f.sql'' zeroRange zeroRange None\<rparr>)
         [''api'', ''get_user''] \<and>
   LocationLink_create ''file:///w/f.sql'' zeroRange zeroRange None
     \<in> set (DefinitionMap_getDefinitionLinks
         (updateCandidates [] ''file:///w/f.sql''
            (createStmts ([tableStmt (Some ''public'') ''users'']
                @ functionStmt [''api'', ''get_user''] # []) ''file:///w/f.sql''))
         ''get_user'')"
proof -
  have h1: "CreateFunctionStmt.funcname \<lparr>is_procedure = None,
        CreateFunctionStmt.funcname = Some (funcNames [''api'', ''get_user''])\<rparr>
     = Some (funcNames [''api'', ''get_user''])"
    by simp
  have h2: "map (\<lambda>fn. FuncName.String fn \<bind> FuncNameString.str)
        (funcNames [''api'', ''get_user'']) = map Some [''api'', ''get_user'']"
    by (simp add: funcNames_def)
  have h3: "''get_user'' \<in> set [''api'', ''get_user'']"
    by simp
  from h1 h2 h3 function_name_components_indexed [OF h1 h2, of "''file:///w/f.sql''"
      "[tableStmt (Some ''public'') ''users'']" "[]" "[]"]
  show ?thesis unfolding functionStmt_def by blast
qed

subsection \<open>Totality\<close>








section \<open>Properties of the workspace module\<close>

lemmas space_defs = indexedSpace_def tableSpace_def exampleSpace_def exampleParams_def
  paramsAt_def lineHelpers_def exampleEnv_def

subsection \<open>A file that does not parse\<close>

lemma updateFileDefinition_raises:
  assumes "readFileSync e (stripFileScheme r) = Inr text" and "parseQuery e text = Inl err"
  shows "updateFileDefinition e space r = Inl err"
  using assms by (simp add: updateFileDefinition_def)

text \<open>
  Claim C5: when a file's text fails to parse, the per-file update leaves the file's
  declarations as they were, tells its caller that the file is not parseable, and lets no
  exception out. The index is indeed not touched, but \<^verbatim>\<open>updateFileDefinition\<close> calls the
  parser unguarded: on the file \<^verbatim>\<open>bad.sql\<close>, whose text the parser rejects, the parser's
  exception leaves the function, where \<^verbatim>\<open>getStmtements\<close> of the statement module turns
  the same rejection into undefined.
\<close>

theorem updateFileDefinition_parse_failure_raises:
  "updateFileDefinition exampleEnv indexedSpace ''file:///w/bad.sql'' = Inl ParseError \<and>
   getStmtements exampleEnv ''CREATE TABEL oops;'' = None"
  by (simp add: updateFileDefinition_def getStmtements_def exampleEnv_def stripFileScheme_def)

subsection \<open>Loading a workspace\<close>

lemma updateFileDefinition_resume:
  "updateFileDefinition e space r =
     (case readFileSync e (stripFileScheme r) of
        Inl err \<Rightarrow> Inl err
      | Inr text \<Rightarrow> resumeUpdate e space r text)"
  by (simp add: updateFileDefinition_def resumeUpdate_def split: sum.splits)

lemma map_of_updateCandidates:
  "map_of (updateCandidates dm r cands) = (map_of dm)(r \<mapsto> cands)"
  by (simp add: updateCandidates_def update_conv')

lemma awaitUpdates_read_rejection:
  assumes "readRejections e resources = err # errs"
  shows "awaitUpdates e space inFlight resources
     = (Some err, space, inFlight @ startedTasks e resources)"
  using assms by (simp add: awaitUpdates_def)

lemma readRejections_member:
  assumes "r \<in> set resources" and "readFileSync e (stripFileScheme r) = Inl err"
  shows "readRejections e resources \<noteq> []"
  using assms by (induction resources) (auto simp: readRejections_def)

text \<open>
  Whatever the order in which parses settle: when a file matched by the only pattern cannot
  be read, the load resolves with the index as it found it.
\<close>

lemma load_with_unreadable_file:
  assumes "getWorkSpaceFolder e resource = Some workspace"
    and "definitionFiles (getDocumentSettings e resource) = Some [filePattern]"
    and "file \<in> set (glob e filePattern)"
    and "readFileSync e (stripFileScheme (WorkspaceFolder.uri workspace @ ''/'' @ file))
           = Inl err"
  shows "loadDefinitionInWorkspace e space resource = space"
proof -
  let ?rs = "map (\<lambda>file. WorkspaceFolder.uri workspace @ ''/'' @ file) (glob e filePattern)"
  from assms(3) have "WorkspaceFolder.uri workspace @ ''/'' @ file \<in> set ?rs"
    by simp
  from readRejections_member [OF this assms(4)]
  obtain err' errs where "readRejections e ?rs = err' # errs"
    by (cases "readRejections e ?rs") auto
  then have "awaitUpdates e space [] ?rs = (Some err', space, [] @ startedTasks e ?rs)"
    by (rule awaitUpdates_read_rejection)
  with assms(1,2) show ?thesis
    by (simp add: loadDefinitionInWorkspace_def runLoadDefinitionInWorkspace_def)
qed

text \<open>
  Claim C4: while a workspace is loaded, an error reading or parsing one matched file is
  caught per file and does not keep the remaining matched files from being read, parsed
  and installed. The code catches around the \<^verbatim>\<open>Promise.all\<close> of a pattern, and the update
  of a file catches nothing, so the first rejection ends the wait for all files of the
  pattern. With the four files \<^verbatim>\<open>a.sql\<close>, \<^verbatim>\<open>bad.sql\<close>, \<^verbatim>\<open>gone.sql\<close>, \<^verbatim>\<open>f.sql\<close>, of which
  \<^verbatim>\<open>gone.sql\<close> cannot be read, the load resolves with an empty index, whatever the order in
  which parses settle: the parsable files \<^verbatim>\<open>a.sql\<close> and \<^verbatim>\<open>f.sql\<close> are still in flight and
  are installed only afterwards, awaited by nothing. Without the unreadable file, and
  with parses settling in the order of their start, the rejection of \<^verbatim>\<open>bad.sql\<close> lets the
  load resolve with \<^verbatim>\<open>a.sql\<close> installed and \<^verbatim>\<open>f.sql\<close> not.
\<close>

theorem loadDefinitionInWorkspace_resolves_before_installed:
  "definitionMap (loadDefinitionInWorkspace (exampleEnv\<lparr>settlesNext := sched\<rparr>) exampleSpace
       ''file:///w/q.sql'') = [] \<and>
   map taskResource (tasksInFlight (exampleEnv\<lparr>settlesNext := sched\<rparr>) exampleSpace
       ''file:///w/q.sql'')
     = [''file:///w/a.sql'', ''file:///w/bad.sql'', ''file:///w/f.sql''] \<and>
   map fst (definitionMap (settleAll exampleEnv
       (loadDefinitionInWorkspace exampleEnv exampleSpace ''file:///w/q.sql'')
       (tasksInFlight exampleEnv exampleSpace ''file:///w/q.sql'')))
     = [''file:///w/a.sql'', ''file:///w/f.sql''] \<and>
   map fst (definitionMap (loadDefinitionInWorkspace
       (exampleEnv\<lparr>glob := (\<lambda>pattern. [''a.sql'', ''bad.sql'', ''f.sql''])\<rparr>) exampleSpace
       ''file:///w/q.sql''))
     = [''file:///w/a.sql''] \<and>
   map taskResource (tasksInFlight
       (exampleEnv\<lparr>glob := (\<lambda>pattern. [''a.sql'', ''bad.sql'', ''f.sql''])\<rparr>) exampleSpace
       ''file:///w/q.sql'')
     = [''file:///w/f.sql'']"
proof -
  have read: "definitionMap (loadDefinitionInWorkspace (exampleEnv\<lparr>settlesNext := sched\<rparr>)
        exampleSpace ''file:///w/q.sql'') = []"
    and flight: "map taskResource (tasksInFlight (exampleEnv\<lparr>settlesNext := sched\<rparr>)
        exampleSpace ''file:///w/q.sql'')
      = [''file:///w/a.sql'', ''file:///w/bad.sql'', ''file:///w/f.sql'']"
    by (simp_all add: loadDefinitionInWorkspace_def tasksInFlight_def
        runLoadDefinitionInWorkspace_def awaitUpdates_def readRejections_def
        startedTasks_def exampleEnv_def exampleSpace_def stripFileScheme_def Let_def)
  have later: "map fst (definitionMap (settleAll exampleEnv
       (loadDefinitionInWorkspace exampleEnv exampleSpace ''file:///w/q.sql'')
       (tasksInFlight exampleEnv exampleSpace ''file:///w/q.sql'')))
     = [''file:///w/a.sql'', ''file:///w/f.sql'']"
    by (simp add: loadDefinitionInWorkspace_def tasksInFlight_def
        runLoadDefinitionInWorkspace_def awaitUpdates_def readRejections_def
        startedTasks_def exampleEnv_def exampleSpace_def stripFileScheme_def Let_def
        settleAll.simps removeNth_def resumeUpdate_def updateCandidates_def)
  have parse: "map fst (definitionMap (loadDefinitionInWorkspace
       (exampleEnv\<lparr>glob := (\<lambda>pattern. [''a.sql'', ''bad.sql'', ''f.sql''])\<rparr>) exampleSpace
       ''file:///w/q.sql''))
     = [''file:///w/a.sql'']"
    and pending: "map taskResource (tasksInFlight
       (exampleEnv\<lparr>glob := (\<lambda>pattern. [''a.sql'', ''bad.sql'', ''f.sql''])\<rparr>) exampleSpace
       ''file:///w/q.sql'')
     = [''file:///w/f.sql'']"
    by (simp_all add: loadDefinitionInWorkspace_def tasksInFlight_def
        runLoadDefinitionInWorkspace_def awaitUpdates_def readRejections_def
        startedTasks_def exampleEnv_def exampleSpace_def stripFileScheme_def Let_def
        awaitAll.simps removeNth_def resumeUpdate_def updateCandidates_def)
  from read flight later parse pending show ?thesis by blast
qed

subsection \<open>Resolving a definition request\<close>

text \<open>
  Claim C1, as stated: the request runs the candidate generator over the cursor token and
  returns the links of the first candidate form with a match, the lower-cased form of an
  unquoted token among them. \<^verbatim>\<open>getDefinitionLinks\<close> looks up the word as it stands and
  no other form: with \<^verbatim>\<open>get_user\<close> declared and the cursor on \<^verbatim>\<open>GET_USER\<close>, or on
  \<^verbatim>\<open>get_user\<close> in double quotes, it finds nothing, and so it does with \<^verbatim>\<open>public.users\<close>
  declared, the default schema \<^verbatim>\<open>public\<close> and the cursor on \<^verbatim>\<open>users\<close>; the resolve
  operation of the spec returns the declaration's link each time.
\<close>

theorem getDefinitionLinks_no_case_folding:
  "getText lineHelpers ''GET_USER'' (Range_create (Position_create 0 0) (Position_create 0 8))
     = ''GET_USER'' \<and>
   getDefinitionLinks lineHelpers indexedSpace exampleParams = Some [] \<and>
   resolve_spec (definitionMap indexedSpace) ''public'' ''GET_USER''
     = [LocationLink_create ''file:///w/f.sql'' zeroRange zeroRange None] \<and>
   getDefinitionLinks lineHelpers indexedSpace (paramsAt ''file:///w/s.sql'') = Some [] \<and>
   resolve_spec (definitionMap indexedSpace) ''public'' (CHR 0x22 # ''get_user'' @ [CHR 0x22])
     = [LocationLink_create ''file:///w/f.sql'' zeroRange zeroRange None] \<and>
   getDefinitionLinks lineHelpers tableSpace (paramsAt ''file:///w/t.sql'') = Some [] \<and>
   resolve_spec (definitionMap tableSpace) ''public'' ''users''
     = [LocationLink_create ''file:///w/a.sql'' zeroRange zeroRange None]"
  by (simp add: getDefinitionLinks_def resolve_spec_def resolveForms_def
      identifierCandidates_spec_def partForms_def isQuoted_def toLowerChar_def
      DefinitionMap_getDefinitionLinks_def updateCandidates_def space_defs extract_defs
      example_defs Range_create_def Position_create_def Let_def)

lemma set_lookup:
  "set (DefinitionMap_getDefinitionLinks dm d)
     = {definitionLink c | c r cs. (r, cs) \<in> set dm \<and> c \<in> set cs \<and> definition' c = d}"
  by (force simp: DefinitionMap_getDefinitionLinks_def)

lemma resolveForms_single:
  "resolveForms dm [form] = DefinitionMap_getDefinitionLinks dm form"
  by (simp add: resolveForms_def)

text \<open>
  Claim C1, amended: for every definition request on an open document with a word at the
  position, the resolve operation tries a single form, the cursor word as the document has
  it (quoting not stripped, no lower-cased form, no default-schema qualification), and
  returns the location list of that form: the links of the declarations whose stored name
  equals the word, with no match of any other form merged in.
\<close>

theorem getDefinitionLinks_raw_word_only:
  assumes "documents space (TextDocumentIdentifier.uri (DefinitionParams.textDocument params))
      = Some document"
    and "getWordRangeAtPosition h document (DefinitionParams.position params) = Some wordRange"
  shows "getDefinitionLinks h space params
       = Some (resolveForms (definitionMap space) [getText h document wordRange]) \<and>
     getDefinitionLinks h space params
       = Some (DefinitionMap_getDefinitionLinks (definitionMap space)
                 (getText h document wordRange)) \<and>
     set (DefinitionMap_getDefinitionLinks (definitionMap space)
                 (getText h document wordRange))
       = {definitionLink c | c r cs. (r, cs) \<in> set (definitionMap space) \<and> c \<in> set cs
            \<and> definition' c = getText h document wordRange}"
  using assms by (simp add: getDefinitionLinks_def set_lookup resolveForms_single)

theorem getDefinitionLinks_raw_word_only_witness:
  "documents indexedSpace ''file:///w/r.sql'' = Some ''get_user'' \<and>
   getWordRangeAtPosition lineHelpers ''get_user'' (Position_create 0 3)
     = Some (Range_create (Position_create 0 0) (Position_create 0 8)) \<and>
   getDefinitionLinks lineHelpers indexedSpace
       \<lparr>DefinitionParams.textDocument = \<lparr>TextDocumentIdentifier.uri = ''file:///w/r.sql''\<rparr>,
        DefinitionParams.position = Position_create 0 3\<rparr>
     = Some (resolveForms (definitionMap indexedSpace) [''get_user'']) \<and>
   getDefinitionLinks lineHelpers indexedSpace
       \<lparr>DefinitionParams.textDocument = \<lparr>TextDocumentIdentifier.uri = ''file:///w/r.sql''\<rparr>,
        DefinitionParams.position = Position_create 0 3\<rparr>
     = Some [LocationLink_create ''file:///w/f.sql'' zeroRange zeroRange None]"
proof -
  have d: "documents indexedSpace (TextDocumentIdentifier.uri (DefinitionParams.textDocument
        \<lparr>DefinitionParams.textDocument = \<lparr>TextDocumentIdentifier.uri = ''file:///w/r.sql''\<rparr>,
         DefinitionParams.position = Position_create 0 3\<rparr>)) = Some ''get_user''"
    by (simp add: indexedSpace_def exampleSpace_def)
  have r: "getWordRangeAtPosition lineHelpers ''get_user'' (DefinitionParams.position
        \<lparr>DefinitionParams.textDocument = \<lparr>TextDocumentIdentifier.uri = ''file:///w/r.sql''\<rparr>,
         DefinitionParams.position = Position_create 0 3\<rparr>)
     = Some (Range_create (Position_create 0 0) (Position_create 0 8))"
    by (simp add: lineHelpers_def eval_nat_numeral)
  have l: "DefinitionMap_getDefinitionLinks (definitionMap indexedSpace)
        (getText lineHelpers ''get_user''
           (Range_create (Position_create 0 0) (Position_create 0 8)))
     = [LocationLink_create ''file:///w/f.sql'' zeroRange zeroRange None]"
    by (simp add: DefinitionMap_getDefinitionLinks_def updateCandidates_def space_defs
        extract_defs example_defs Range_create_def Position_create_def)
  have t: "getText lineHelpers ''get_user''
       (Range_create (Position_create 0 0) (Position_create 0 8)) = ''get_user''"
    by (simp add: lineHelpers_def Range_create_def Position_create_def)
  from d r l getDefinitionLinks_raw_word_only [OF d r]
  show ?thesis by (simp add: t resolveForms_single)
qed

section \<open>Properties of the close handler\<close>

lemma files_updateCandidates:
  "fst ` set (updateCandidates dm r cands) = insert r (fst ` set dm)"
  using arg_cong [OF map_of_updateCandidates [of dm r cands], of dom]
  by (simp add: dom_map_of_conv_image_fst)

lemma resumeUpdate_keeps:
  assumes "resumeUpdate e space r text = Inr space'"
  shows "fst ` set (definitionMap space) \<subseteq> fst ` set (definitionMap space')"
proof -
  from assms have "definitionMap space' = definitionMap space
      \<or> (\<exists>cands. definitionMap space' = updateCandidates (definitionMap space) r cands)"
    by (auto simp: resumeUpdate_def split: sum.splits option.splits)
  then show ?thesis
  proof
    assume "definitionMap space' = definitionMap space"
    then show ?thesis by simp
  next
    assume "\<exists>cands. definitionMap space' = updateCandidates (definitionMap space) r cands"
    then have "fst ` set (definitionMap space') = insert r (fst ` set (definitionMap space))"
      using files_updateCandidates by metis
    then show ?thesis by blast
  qed
qed

lemma updateFileDefinition_keeps:
  assumes "updateFileDefinition e space r = Inr space'"
  shows "fst ` set (definitionMap space) \<subseteq> fst ` set (definitionMap space')"
proof -
  from assms obtain t where "resumeUpdate e space r t = Inr space'"
    by (auto simp: updateFileDefinition_resume split: sum.splits)
  then show ?thesis by (rule resumeUpdate_keeps)
qed

lemma awaitAll_keeps:
  "fst ` set (definitionMap space)
     \<subseteq> fst ` set (definitionMap (fst (snd (awaitAll e space inFlight))))"
proof (induction e space inFlight rule: awaitAll.induct)
  case (1 e space inFlight)
  show ?case
  proof (cases "list_ex awaited inFlight")
    case False
    then show ?thesis by (subst awaitAll.simps) simp
  next
    case True
    let ?i = "settlesNext e inFlight mod length inFlight"
    let ?task = "inFlight ! ?i"
    let ?rest = "removeNth ?i inFlight"
    show ?thesis
    proof (cases "resumeUpdate e space (taskResource ?task) (taskText ?task)")
      case (Inl err)
      show ?thesis
      proof (cases "awaited ?task")
        case aw: True
        with True Inl show ?thesis by (subst awaitAll.simps) (simp add: Let_def)
      next
        case aw: False
        from "1.IH"(1) [OF _ refl refl refl Inl aw] True
        have "fst ` set (definitionMap space)
          \<subseteq> fst ` set (definitionMap (fst (snd (awaitAll e space ?rest))))"
          by simp
        with True Inl aw show ?thesis by (subst awaitAll.simps) (simp add: Let_def)
      qed
    next
      case (Inr space')
      from "1.IH"(2) [OF _ refl refl refl Inr] True
      have "fst ` set (definitionMap space')
          \<subseteq> fst ` set (definitionMap (fst (snd (awaitAll e space' ?rest))))"
        by simp
      with resumeUpdate_keeps [OF Inr] True Inr show ?thesis
        by (subst awaitAll.simps) (auto simp: Let_def)
    qed
  qed
qed

lemma awaitUpdates_keeps:
  "fst ` set (definitionMap space)
     \<subseteq> fst ` set (definitionMap (fst (snd (awaitUpdates e space inFlight rs))))"
  by (simp add: awaitUpdates_def awaitAll_keeps split: list.splits)

lemma loadPatterns_keeps:
  "fst ` set (definitionMap space)
     \<subseteq> fst ` set (definitionMap (fst (loadPatterns e w space inFlight patterns)))"
proof (induction patterns arbitrary: space inFlight)
  case Nil
  then show ?case by simp
next
  case (Cons p ps)
  obtain r space1 inFlight1
    where a: "awaitUpdates e space inFlight (map (\<lambda>file. w @ ''/'' @ file) (glob e p))
      = (r, space1, inFlight1)"
    by (cases "awaitUpdates e space inFlight (map (\<lambda>file. w @ ''/'' @ file) (glob e p))")
  have step: "loadPatterns e w space inFlight (p # ps)
      = loadPatterns e w space1 (map (\<lambda>t. t\<lparr>awaited := False\<rparr>) inFlight1) ps"
    using a by (cases r) (simp_all add: Let_def)
  from awaitUpdates_keeps [of space e inFlight "map (\<lambda>file. w @ ''/'' @ file) (glob e p)"] a
  have "fst ` set (definitionMap space) \<subseteq> fst ` set (definitionMap space1)"
    by simp
  with Cons.IH [of space1 "map (\<lambda>t. t\<lparr>awaited := False\<rparr>) inFlight1"]
  show ?case unfolding step by blast
qed

lemma loadDefinitionInWorkspace_keeps:
  "fst ` set (definitionMap space)
     \<subseteq> fst ` set (definitionMap (loadDefinitionInWorkspace e space resource))"
  by (simp add: loadDefinitionInWorkspace_def runLoadDefinitionInWorkspace_def
      loadPatterns_keeps split: option.splits)

text \<open>
  Claim C8: closing a document leaves the definitions index unchanged; the close handler
  changes the settings manager (through \<^verbatim>\<open>delete\<close>) and sends empty diagnostics for the
  document, nothing else. No other operation of the sources removes a file entry either:
  a file that has an entry keeps one through \<^verbatim>\<open>updateFileDefinition\<close> and through
  \<^verbatim>\<open>loadDefinitionInWorkspace\<close>. (The removal of a file excluded by a glob pattern during a
  reload is not in the sources.)
\<close>

theorem onDidClose_keeps_index:
  "definitionsManager (onDidClose delete this documentUri) = definitionsManager this \<and>
   settingsManager (onDidClose delete this documentUri)
     = delete (settingsManager this) documentUri \<and>
   sentDiagnostics (onDidClose delete this documentUri)
     = sentDiagnostics this
         @ [\<lparr>PublishDiagnosticsParams.uri = documentUri, diagnostics = []\<rparr>] \<and>
   (updateFileDefinition e space r = Inr space' \<longrightarrow>
      fst ` set (definitionMap space) \<subseteq> fst ` set (definitionMap space')) \<and>
   fst ` set (definitionMap space)
     \<subseteq> fst ` set (definitionMap (loadDefinitionInWorkspace e space resource))"
  by (simp add: onDidClose_def updateFileDefinition_keeps loadDefinitionInWorkspace_keeps)

theorem onDidClose_keeps_index_witness:
  "updateFileDefinition exampleEnv indexedSpace ''file:///w/a.sql''
     = Inr (indexedSpace\<lparr>definitionMap :=
          updateCandidates (definitionMap indexedSpace) ''file:///w/a.sql''
            (createStmts [tableStmt (Some ''public'') ''users''] ''file:///w/a.sql'')\<rparr>) \<and>
   fst ` set (definitionMap indexedSpace)
     \<subseteq> fst ` set (definitionMap (indexedSpace\<lparr>definitionMap :=
          updateCandidates (definitionMap indexedSpace) ''file:///w/a.sql''
            (createStmts [tableStmt (Some ''public'') ''users''] ''file:///w/a.sql'')\<rparr>)) \<and>
   definitionsManager (onDidClose (\<lambda>(settings :: string list) u. removeAll u settings)
       \<lparr>settingsManager = [''file:///w/q.sql''], definitionsManager = indexedSpace,
        sentDiagnostics = []\<rparr> ''file:///w/q.sql'')
     = indexedSpace"
proof -
  have h: "updateFileDefinition exampleEnv indexedSpace ''file:///w/a.sql''
     = Inr (indexedSpace\<lparr>definitionMap :=
          updateCandidates (definitionMap indexedSpace) ''file:///w/a.sql''
            (createStmts [tableStmt (Some ''public'') ''users''] ''file:///w/a.sql'')\<rparr>)"
    by (simp add: updateFileDefinition_def exampleEnv_def stripFileScheme_def)
  from h onDidClose_keeps_index [of "\<lambda>(settings :: string list) u. removeAll u settings"
      "\<lparr>settingsManager = [''file:///w/q.sql''], definitionsManager = indexedSpace,
        sentDiagnostics = []\<rparr>" "''file:///w/q.sql''" exampleEnv indexedSpace
      "''file:///w/a.sql''"
      "indexedSpace\<lparr>definitionMap :=
          updateCandidates (definitionMap indexedSpace) ''file:///w/a.sql''
            (createStmts [tableStmt (Some ''public'') ''users''] ''file:///w/a.sql'')\<rparr>"
      "''file:///w/q.sql''"]
  show ?thesis by simp
qed

section \<open>Properties of the hover service\<close>

lemma makeHover_None: "makeHover w texts = None \<longleftrightarrow> texts = []"
  by (simp add: makeHover_def Let_def)

lemma getTableHover_None:
  "getTableHover pg w schema n d = Inr None \<longleftrightarrow> queryTableDefinitions pg schema d n = Inr []"
  by (auto simp: getTableHover_def makeHover_None split: sum.splits)

lemma getViewHover_None:
  "getViewHover pg w schema n d = Inr None \<longleftrightarrow> queryViewDefinitions pg schema d n = Inr []"
  by (auto simp: getViewHover_def makeHover_None split: sum.splits)

lemma getFunctionHover_None:
  "getFunctionHover pg w schema n d = Inr None
     \<longleftrightarrow> queryFunctionDefinitions pg schema d n = Inr []"
  by (auto simp: getFunctionHover_def makeHover_None split: sum.splits)

lemma getTypeHover_None:
  "getTypeHover pg w schema n d = Inr None \<longleftrightarrow> queryTypeDefinitions pg schema d n = Inr []"
  by (auto simp: getTypeHover_def makeHover_None split: sum.splits)

lemma firstDecided_Cons:
  "firstDecided (r # rs) = (if r = Inr None then firstDecided rs else r)"
  by (simp add: firstDecided_def)

lemma firstDecided_None:
  "firstDecided checks = Inr None \<longleftrightarrow> (\<forall>r \<in> set checks. r = Inr None)"
  by (induction checks) (auto simp: firstDecided_Cons, simp add: firstDecided_def)

lemma hoverChecks_Nil: "hoverChecks pg w d [] = []"
  by (simp add: hoverChecks_def)

lemma hoverChecks_Cons:
  "hoverChecks pg w d (c # cs) =
     (case separateSchemaFromCandidate w c of
        None \<Rightarrow> hoverChecks pg w d cs
      | Some (schema, candidate) \<Rightarrow>
          [getTableHover pg w schema candidate d, getViewHover pg w schema candidate d,
           getFunctionHover pg w schema candidate d, getTypeHover pg w schema candidate d]
          @ hoverChecks pg w d cs)"
  by (simp add: hoverChecks_def split: option.splits)

lemma hoverCandidates_firstDecided:
  "hoverCandidates pg w d cs = firstDecided (hoverChecks pg w d cs)"
proof (induction cs)
  case Nil
  show ?case by (simp add: hoverChecks_Nil firstDecided_def)
next
  case (Cons c cs)
  show ?case
  proof (cases "separateSchemaFromCandidate w c")
    case None
    with Cons show ?thesis by (simp add: hoverChecks_Cons)
  next
    case (Some sc)
    obtain schema candidate where sc: "sc = (schema, candidate)" by (cases sc)
    with Some Cons show ?thesis
      by (simp add: hoverChecks_Cons firstDecided_Cons split: sum.splits option.splits)
  qed
qed

lemma hoverChecks_all_None:
  "(\<forall>r \<in> set (hoverChecks pg w d cs). r = Inr None) \<longleftrightarrow>
     (\<forall>c \<in> set cs. \<forall>schema candidate.
        separateSchemaFromCandidate w c = Some (schema, candidate) \<longrightarrow>
          queryTableDefinitions pg schema d candidate = Inr [] \<and>
          queryViewDefinitions pg schema d candidate = Inr [] \<and>
          queryFunctionDefinitions pg schema d candidate = Inr [] \<and>
          queryTypeDefinitions pg schema d candidate = Inr [])"
proof (induction cs)
  case Nil
  show ?case by (simp add: hoverChecks_Nil)
next
  case (Cons c cs)
  show ?case
  proof (cases "separateSchemaFromCandidate w c")
    case None
    with Cons show ?thesis by (simp add: hoverChecks_Cons)
  next
    case (Some sc)
    obtain schema candidate where sc: "sc = (schema, candidate)" by (cases sc)
    with Some Cons show ?thesis
      by (simp add: hoverChecks_Cons ball_Un getTableHover_None getViewHover_None
          getFunctionHover_None getTypeHover_None)
  qed
qed

text \<open>
  Claim C10, as stated: \<^verbatim>\<open>getHover\<close> returns the hover of the first check, in candidate
  order and in the order table, view, function, type, that yields at least one definition
  text, and undefined if and only if no candidate yields any definition. No query is
  guarded in \<^verbatim>\<open>getHover\<close>. On the word \<^verbatim>\<open>Users\<close>, with the view \<^verbatim>\<open>users\<close> in the database and
  a function query that rejects, the first check that yields a text is the view check of
  the candidate \<^verbatim>\<open>users\<close>, but the request ends before it, with the rejection of the function
  query for \<^verbatim>\<open>Users\<close>. With a table query that rejects and nothing in the database, no
  candidate yields a definition, and yet the request is not undefined: it is rejected.
\<close>

theorem getHover_rejected_query:
  "sanitizeWordCandidates exampleWordHelpers ''Users'' = [''Users'', ''users''] \<and>
   getHover_claimed functionQueryRejects exampleWordHelpers ''public'' [''Users'', ''users'']
     = Some \<lparr>contents = \<lparr>kind = Markdown, value = ''postgres: View public.users''\<rparr>\<rparr> \<and>
   getHover functionQueryRejects exampleWordHelpers lineHelpers exampleHoverParams
       ''Users'' ''public''
     = Inl QueryError \<and>
   getHover_claimed tableQueryRejects exampleWordHelpers ''public'' [''Users'', ''users'']
     = None \<and>
   getHover tableQueryRejects exampleWordHelpers lineHelpers exampleHoverParams
       ''Users'' ''public''
     = Inl QueryError"
  by (simp add: getHover_def getHover_claimed_def hoverTexts_claimed_def yieldedTexts_def
      functionQueryRejects_def tableQueryRejects_def examplePostgres_def
      exampleWordHelpers_def exampleHoverParams_def lineHelpers_def toLowerChar_def
      getTableHover_def getViewHover_def getFunctionHover_def getTypeHover_def
      makeHover_def Range_create_def Position_create_def List.map_filter_simps)

text \<open>
  Claim C10, amended: for a hover request with a word range, \<^verbatim>\<open>getHover\<close> goes through the
  sanitized candidates in order and, for each candidate whose schema can be separated,
  through the table, view, function and type checks in this order; the first check that
  does not come back undefined decides the request: it returns the hover of a check that
  yields at least one definition text, and it ends with the rejection of a check whose
  query rejects. The request comes back undefined exactly when every query of every such
  candidate returns no definition.
\<close>

theorem getHover_first_decided_check:
  assumes "getWordRangeAtPosition h document (HoverParams.position params) = Some wordRange"
  shows "getHover pg w h params document defaultSchema
       = firstDecided (hoverChecks pg w defaultSchema
           (sanitizeWordCandidates w (getText h document wordRange))) \<and>
     (getHover pg w h params document defaultSchema = Inr None \<longleftrightarrow>
        (\<forall>wordCandidate \<in> set (sanitizeWordCandidates w (getText h document wordRange)).
           \<forall>schema candidate.
             separateSchemaFromCandidate w wordCandidate = Some (schema, candidate) \<longrightarrow>
               queryTableDefinitions pg schema defaultSchema candidate = Inr [] \<and>
               queryViewDefinitions pg schema defaultSchema candidate = Inr [] \<and>
               queryFunctionDefinitions pg schema defaultSchema candidate = Inr [] \<and>
               queryTypeDefinitions pg schema defaultSchema candidate = Inr []))"
proof -
  let ?cs = "sanitizeWordCandidates w (getText h document wordRange)"
  have eq: "getHover pg w h params document defaultSchema
       = firstDecided (hoverChecks pg w defaultSchema ?cs)"
    using assms by (simp add: getHover_def hoverCandidates_firstDecided)
  have "(\<forall>r \<in> set (hoverChecks pg w defaultSchema ?cs). r = Inr None) \<longleftrightarrow>
        (\<forall>wordCandidate \<in> set ?cs. \<forall>schema candidate.
             separateSchemaFromCandidate w wordCandidate = Some (schema, candidate) \<longrightarrow>
               queryTableDefinitions pg schema defaultSchema candidate = Inr [] \<and>
               queryViewDefinitions pg schema defaultSchema candidate = Inr [] \<and>
               queryFunctionDefinitions pg schema defaultSchema candidate = Inr [] \<and>
               queryTypeDefinitions pg schema defaultSchema candidate = Inr [])"
    by (rule hoverChecks_all_None)
  with eq show ?thesis by (simp add: firstDecided_None)
qed

theorem getHover_first_decided_check_witness:
  "getWordRangeAtPosition lineHelpers ''Users'' (HoverParams.position exampleHoverParams)
     = Some (Range_create (Position_create 0 0) (Position_create 0 5)) \<and>
   sanitizeWordCandidates exampleWordHelpers ''Users'' = [''Users'', ''users''] \<and>
   getHover examplePostgres exampleWordHelpers lineHelpers exampleHoverParams ''Users'' ''public''
     = Inr (Some \<lparr>contents = \<lparr>kind = Markdown, value = ''postgres: View public.users''\<rparr>\<rparr>) \<and>
   getHover examplePostgres exampleWordHelpers lineHelpers exampleHoverParams ''Users'' ''public''
     \<noteq> Inr None"
proof -
  have r: "getWordRangeAtPosition lineHelpers ''Users'' (HoverParams.position exampleHoverParams)
     = Some (Range_create (Position_create 0 0) (Position_create 0 5))"
    by (simp add: lineHelpers_def eval_nat_numeral)
  have t: "getText lineHelpers ''Users''
       (Range_create (Position_create 0 0) (Position_create 0 5)) = ''Users''"
    by (simp add: lineHelpers_def Range_create_def Position_create_def)
  have s: "sanitizeWordCandidates exampleWordHelpers ''Users'' = [''Users'', ''users'']"
    by (simp add: exampleWordHelpers_def toLowerChar_def)
  have c: "firstDecided (hoverChecks examplePostgres exampleWordHelpers ''public''
       [''Users'', ''users''])
     = Inr (Some \<lparr>contents = \<lparr>kind = Markdown, value = ''postgres: View public.users''\<rparr>\<rparr>)"
    by (simp add: firstDecided_def hoverChecks_def examplePostgres_def exampleWordHelpers_def
        getTableHover_def getViewHover_def getFunctionHover_def getTypeHover_def makeHover_def)
  from r s c getHover_first_decided_check [OF r, of examplePostgres exampleWordHelpers "''public''"]
  show ?thesis by (simp add: t)
qed

end
